theory Spec2Isabelle
  imports Complex_Main "HOL-Library.Word"
begin

section \<open>OpenNL BICGSTAB solver (Packages/OpenNL/include/OpenNL/bicgstab.h)\<close>

text \<open>
  The class \<open>Solver_BICGSTAB<MATRIX, VECTOR>\<close> is a template over the coefficient type
  \<open>CoeffType\<close>. The embedding keeps it a parameter: every function of the solver takes the
  arithmetic of \<open>CoeffType\<close> as its first argument, and the text of \<open>solve\<close> is translated
  once. Two instances are used. Over the ordered field \<open>real\<close> every operation is exact:
  no rounding, no overflow to infinity, no NaN; the properties of the algorithm are proved
  there. Over \<open>double\<close> the operations are those of IEEE 754 binary64; runs of the
  compiled code on concrete inputs are evaluated there.
  The counters \<open>max_iter\<close>, \<open>n\<close> and \<open>its\<close> are \<open>unsigned int\<close>, modelled as \<open>32 word\<close>.
  \<open>assert\<close> is the macro of \<open><cassert>\<close>: it aborts the process when its argument is false,
  and expands to nothing when \<open>NDEBUG\<close> is defined.
\<close>

subsection \<open>The coefficient type\<close>

text \<open>
  What \<open>solve\<close> and \<open>IsZero\<close> use of \<open>CoeffType\<close>: the literals \<open>0\<close>, \<open>1\<close> and \<open>10.0\<close>, unary
  minus, \<open>+\<close> and \<open>*\<close> (inside the BLAS operations), \<open>/\<close>, \<open>fabs\<close>, \<open><\<close> and \<open><=\<close>
  (\<open>a > b\<close> is \<open>b < a\<close>). \<open>c_no_quotient d\<close> says that \<open>CoeffType\<close> has no value for a quotient
  with the divisor \<open>d\<close>: the source divides without a guard that survives every build at
  line 148 only, where the divisor is guarded by an \<open>assert\<close>.
\<close>

record 'a coeff_type =
  c_zero :: 'a
  c_one :: 'a
  c_ten :: 'a
  c_neg :: "'a \<Rightarrow> 'a"
  c_add :: "'a \<Rightarrow> 'a \<Rightarrow> 'a"
  c_mul :: "'a \<Rightarrow> 'a \<Rightarrow> 'a"
  c_div :: "'a \<Rightarrow> 'a \<Rightarrow> 'a"
  c_fabs :: "'a \<Rightarrow> 'a"
  c_less :: "'a \<Rightarrow> 'a \<Rightarrow> bool"
  c_less_eq :: "'a \<Rightarrow> 'a \<Rightarrow> bool"
  c_no_quotient :: "'a \<Rightarrow> bool"

subsection \<open>Vectors, the store and the solver's local variables\<close>

text \<open>
  The vectors of \<open>solve\<close>: the arguments \<open>x\<close> and \<open>b\<close>, the seven working vectors, and
  \<open>V_s\<close>, a buffer of its own for \<open>s\<close> that the source does not have (line 125 binds the
  name \<open>s\<close> to the buffer of \<open>h\<close>). A vector is the list of its coefficients, a matrix the
  list of its rows, the store gives every vector its contents.
\<close>

datatype vname = V_x | V_b | V_rT | V_d | V_h | V_u | V_Ad | V_t | V_r | V_s

text \<open>
  The locals of \<open>solve\<close> that live across statements. \<open>omega\<close> is \<open>None\<close> until line 158/160
  assigns it (line 181 prints it even when the loop body never ran). \<open>n_mult\<close> counts the
  calls of \<open>mult\<close> and \<open>n_alloc\<close> the working vectors constructed; neither is read by the solver.
\<close>

record 'a state_T =
  mem :: "vname \<Rightarrow> 'a list"
  rTh :: 'a
  rTr :: 'a
  omega :: "'a option"
  its :: "32 word"
  n_mult :: nat
  n_alloc :: nat

text \<open>
  The data members \<open>epsilon_\<close> and \<open>max_iter_\<close> of the class (lines 195-196), set by
  \<open>set_epsilon\<close> and \<open>set_max_iter\<close>.
\<close>

record 'a solver_T =
  m_epsilon :: 'a
  m_max_iter :: "32 word"

definition set_epsilon :: "'a \<Rightarrow> 'a solver_T \<Rightarrow> 'a solver_T" where
  "set_epsilon eps S = S\<lparr>m_epsilon := eps\<rparr>"

definition set_max_iter :: "32 word \<Rightarrow> 'a solver_T \<Rightarrow> 'a solver_T" where
  "set_max_iter max_iter S = S\<lparr>m_max_iter := max_iter\<rparr>"

text \<open>
  What the text of \<open>solve\<close> leaves to the instantiation and to the compilation:
  \<^item> \<open>ndebug\<close>: whether \<open>NDEBUG\<close> is defined, in which case \<open>assert\<close> expands to nothing;
  \<^item> \<open>tiny\<close>: the value of \<open>numeric_limits<CoeffType>::min()\<close> (\<open>2^-1022\<close> for \<open>double\<close>);
  \<^item> \<open>s_ref\<close>: the buffer the name \<open>s\<close> denotes, \<open>V_h\<close> in the source (\<open>Vector& s = h\<close>);
  \<^item> \<open>u_calls\<close>: whether the two BLAS calls on \<open>u\<close> (lines 153-154) are executed, as they are
    in the source.
  The last two are parameters only so that the variants of the design notes are the same
  text as the source's function.
\<close>

record 'a build_T =
  ndebug :: bool
  tiny :: 'a
  s_ref :: vname
  u_calls :: bool

definition as_written :: "bool \<Rightarrow> 'a \<Rightarrow> 'a build_T" where
  "as_written nd t = \<lparr>ndebug = nd, tiny = t, s_ref = V_h, u_calls = True\<rparr>"

text \<open>
  The two ways a call can end without returning a value in the model: a failed \<open>assert\<close>
  (lines 138 and 147), and the unguarded division of line 148 with a divisor for which
  \<open>CoeffType\<close> has no quotient.
\<close>

datatype error = Assertion_Failed | Division_By_Zero

text \<open>How one pass of the loop body ends: by the \<open>break\<close> of line 168 or 170, or at line 177.\<close>

datatype flow = Break | Continue

subsection \<open>Scalar policy (lines 187-192)\<close>

text \<open>
  \<open>IsZero_T C t a\<close> is the source's \<open>IsZero(a)\<close>, \<open>fabs(a) < 10.0 * min()\<close>, with \<open>t\<close> for
  \<open>numeric_limits<CoeffType>::min()\<close>.
\<close>

definition IsZero_T :: "'a coeff_type \<Rightarrow> 'a \<Rightarrow> 'a \<Rightarrow> bool" where
  "IsZero_T C t a = c_less C (c_fabs C a) (c_mul C (c_ten C) t)"

subsection \<open>BLAS-1 and the matrix-vector product\<close>

text \<open>
  \<open>BLAS<Vector>\<close> (\<open>copy\<close>, \<open>scal\<close>, \<open>axpy\<close>, \<open>dot\<close>), \<open>mult\<close> and the constructor \<open>Vector(n)\<close>
  are declared in other headers of OpenNL; sections 4.2, 4.3 and 6 of the specification say
  what they compute. A matrix is the list of its rows. The primitives are specified for
  operands of equal dimension only; on lists of different lengths the model stops at the
  shorter one. The operations on buffers take the state and return it updated.
\<close>

text \<open>
  Modelled from the spec: the natural inner product \<open>\<Sum>\<^sub>i x\<^sub>i * y\<^sub>i\<close> of \<open>dot\<close> (section 4.2),
  the products being added to 0 in the order of the indices.
\<close>

definition dotl_T :: "'a coeff_type \<Rightarrow> 'a list \<Rightarrow> 'a list \<Rightarrow> 'a" where
  "dotl_T C x y = foldl (\<lambda>acc (xi, yi). c_add C acc (c_mul C xi yi)) (c_zero C) (zip x y)"

text \<open>Modelled from the spec: the vector \<open>y + a * x\<close> that \<open>axpy\<close> leaves in \<open>y\<close> (section 4.2).\<close>

definition axpyl_T :: "'a coeff_type \<Rightarrow> 'a \<Rightarrow> 'a list \<Rightarrow> 'a list \<Rightarrow> 'a list" where
  "axpyl_T C a x y = map2 (\<lambda>xi yi. c_add C yi (c_mul C a xi)) x y"

text \<open>Modelled from the spec: the product \<open>A * x\<close> that \<open>mult\<close> writes (section 4.3).\<close>

definition matvec_T :: "'a coeff_type \<Rightarrow> 'a list list \<Rightarrow> 'a list \<Rightarrow> 'a list" where
  "matvec_T C A x = map (\<lambda>row. dotl_T C row x) A"

text \<open>
  Modelled from the spec: \<open>copy(src, dst)\<close> overwrites the destination; with \<open>src\<close> and
  \<open>dst\<close> the same buffer it changes nothing (section 4.2).
\<close>

definition copy :: "vname \<Rightarrow> vname \<Rightarrow> 'a state_T \<Rightarrow> 'a state_T" where
  "copy src dst \<sigma> = \<sigma>\<lparr>mem := (mem \<sigma>)(dst := mem \<sigma> src)\<rparr>"

text \<open>Modelled from the spec: \<open>scal(a, v)\<close> is \<open>v \<leftarrow> a * v\<close> in place (section 4.2).\<close>

definition scal_T :: "'a coeff_type \<Rightarrow> 'a \<Rightarrow> vname \<Rightarrow> 'a state_T \<Rightarrow> 'a state_T" where
  "scal_T C a v \<sigma> = \<sigma>\<lparr>mem := (mem \<sigma>)(v := map (\<lambda>vi. c_mul C a vi) (mem \<sigma> v))\<rparr>"

text \<open>Modelled from the spec: \<open>axpy(a, x, y)\<close> is \<open>y \<leftarrow> y + a * x\<close> in place (section 4.2).\<close>

definition axpy_T :: "'a coeff_type \<Rightarrow> 'a \<Rightarrow> vname \<Rightarrow> vname \<Rightarrow> 'a state_T \<Rightarrow> 'a state_T" where
  "axpy_T C a x y \<sigma> = \<sigma>\<lparr>mem := (mem \<sigma>)(y := axpyl_T C a (mem \<sigma> x) (mem \<sigma> y))\<rparr>"

text \<open>Modelled from the spec: \<open>dot(x, y)\<close> returns the inner product (section 4.2).\<close>

definition dot_T :: "'a coeff_type \<Rightarrow> vname \<Rightarrow> vname \<Rightarrow> 'a state_T \<Rightarrow> 'a" where
  "dot_T C x y \<sigma> = dotl_T C (mem \<sigma> x) (mem \<sigma> y)"

text \<open>
  Modelled from the spec: \<open>mult(A, x, y)\<close> writes \<open>y \<leftarrow> A * x\<close>, \<open>y\<close> being written, not
  accumulated (section 4.3). The call is counted.
\<close>

definition mult_T :: "'a coeff_type \<Rightarrow> 'a list list \<Rightarrow> vname \<Rightarrow> vname \<Rightarrow> 'a state_T \<Rightarrow> 'a state_T" where
  "mult_T C A x y \<sigma> = \<sigma>\<lparr>mem := (mem \<sigma>)(y := matvec_T C A (mem \<sigma> x)), n_mult := Suc (n_mult \<sigma>)\<rparr>"

text \<open>
  Modelled from the spec: \<open>Vector v(n)\<close> constructs the zero vector of dimension \<open>n\<close>
  (section 6). The construction is counted.
\<close>

definition new_vector_T :: "'a coeff_type \<Rightarrow> vname \<Rightarrow> nat \<Rightarrow> 'a state_T \<Rightarrow> 'a state_T" where
  "new_vector_T C v n \<sigma> = \<sigma>\<lparr>mem := (mem \<sigma>)(v := replicate n (c_zero C)), n_alloc := Suc (n_alloc \<sigma>)\<rparr>"

subsection \<open>The loop body (lines 145-177)\<close>

text \<open>
  One execution of the body from the state \<open>\<sigma>0\<close> at the loop head. The result is \<open>Inl\<close> when
  the run leaves the body abnormally: \<open>Assertion_Failed\<close> when the \<open>assert\<close> of line 147
  fails (the process is aborted, \<open>solve\<close> does not return), \<open>Division_By_Zero\<close> when
  assertions are compiled out and line 148 divides by an \<open>rTAd\<close> for which \<open>CoeffType\<close> has no
  quotient (over the reals, an \<open>rTAd\<close> that is exactly zero; IEEE arithmetic has a quotient
  for every divisor and continues with an infinity or a NaN).
  Otherwise it is the state after the body together with whether the body ended in a
  \<open>break\<close>. The divisions of lines 160 and 171 are guarded by \<open>IsZero\<close> in the source.
\<close>

definition iteration_T ::
  "'a coeff_type \<Rightarrow> 'a build_T \<Rightarrow> 'a list list \<Rightarrow> 'a state_T \<Rightarrow> error + flow \<times> 'a state_T" where
  "iteration_T C B A \<sigma>0 =
    (let s = s_ref B; \<comment> \<open>line 125\<close>
         \<sigma>1 = mult_T C A V_d V_Ad \<sigma>0; \<comment> \<open>line 145\<close>
         rTAd = dot_T C V_rT V_Ad \<sigma>1 \<comment> \<open>line 146\<close>
     in if \<not> ndebug B \<and> IsZero_T C (tiny B) rTAd then Inl Assertion_Failed \<comment> \<open>line 147\<close>
        else if c_no_quotient C rTAd then Inl Division_By_Zero
        else
         (let alpha = c_div C (rTh \<sigma>1) rTAd; \<comment> \<open>line 148\<close>
              \<sigma>2 = axpy_T C (c_neg C alpha) V_Ad V_r \<sigma>1; \<comment> \<open>line 149\<close>
              \<sigma>3 = copy V_h s \<sigma>2; \<comment> \<open>line 150\<close>
              \<sigma>4 = axpy_T C (c_neg C alpha) V_Ad s \<sigma>3; \<comment> \<open>line 151\<close>
              \<sigma>5 = mult_T C A s V_t \<sigma>4; \<comment> \<open>line 152\<close>
              \<sigma>6 = (if u_calls B then scal_T C alpha V_u (axpy_T C (c_one C) V_t V_u \<sigma>5) else \<sigma>5); \<comment> \<open>lines 153-154\<close>
              st = dot_T C s V_t \<sigma>6; \<comment> \<open>line 155\<close>
              tt = dot_T C V_t V_t \<sigma>6; \<comment> \<open>line 156\<close>
              w = (if IsZero_T C (tiny B) st \<or> IsZero_T C (tiny B) tt then c_zero C else c_div C st tt); \<comment> \<open>lines 157-160\<close>
              \<sigma>7 = \<sigma>6\<lparr>omega := Some w\<rparr>;
              \<sigma>8 = axpy_T C (c_neg C alpha) V_d V_x \<sigma>7; \<comment> \<open>line 161\<close>
              \<sigma>9 = axpy_T C (c_neg C w) s V_x \<sigma>8; \<comment> \<open>line 162\<close>
              \<sigma>10 = copy s V_h \<sigma>9; \<comment> \<open>line 163\<close>
              \<sigma>11 = axpy_T C (c_neg C w) V_t V_r \<sigma>10; \<comment> \<open>line 164\<close>
              \<sigma>12 = \<sigma>11\<lparr>rTr := dot_T C V_r V_r \<sigma>11\<rparr>; \<comment> \<open>line 165\<close>
              \<sigma>13 = axpy_T C (c_neg C w) V_t V_h \<sigma>12 \<comment> \<open>line 166\<close>
          in if IsZero_T C (tiny B) w then Inr (Break, \<sigma>13) \<comment> \<open>lines 167-168\<close>
             else if IsZero_T C (tiny B) (rTh \<sigma>13) then Inr (Break, \<sigma>13) \<comment> \<open>lines 169-170\<close>
             else
              (let beta0 = c_div C (c_div C alpha w) (rTh \<sigma>13); \<comment> \<open>line 171\<close>
                   \<sigma>14 = \<sigma>13\<lparr>rTh := dot_T C V_rT V_h \<sigma>13\<rparr>; \<comment> \<open>line 172\<close>
                   beta = c_mul C beta0 (rTh \<sigma>14); \<comment> \<open>line 173\<close>
                   \<sigma>15 = scal_T C beta V_d \<sigma>14; \<comment> \<open>line 174\<close>
                   \<sigma>16 = axpy_T C (c_one C) V_h V_d \<sigma>15; \<comment> \<open>line 175\<close>
                   \<sigma>17 = axpy_T C (c_mul C (c_neg C beta) w) V_Ad V_d \<sigma>16 \<comment> \<open>line 176\<close>
               in Inr (Continue, \<sigma>17\<lparr>its := its \<sigma>17 + 1\<rparr>)))) \<comment> \<open>line 177\<close>"

text \<open>The body with every local named: the definition, read statement by statement.\<close>

lemma iteration_T_unfold:
  assumes "s = s_ref B"
    and "\<sigma>1 = mult_T C A V_d V_Ad \<sigma>0"
    and "rTAd = dot_T C V_rT V_Ad \<sigma>1"
    and "alpha = c_div C (rTh \<sigma>1) rTAd"
    and "\<sigma>2 = axpy_T C (c_neg C alpha) V_Ad V_r \<sigma>1"
    and "\<sigma>3 = copy V_h s \<sigma>2"
    and "\<sigma>4 = axpy_T C (c_neg C alpha) V_Ad s \<sigma>3"
    and "\<sigma>5 = mult_T C A s V_t \<sigma>4"
    and "\<sigma>6 = (if u_calls B then scal_T C alpha V_u (axpy_T C (c_one C) V_t V_u \<sigma>5) else \<sigma>5)"
    and "st = dot_T C s V_t \<sigma>6"
    and "tt = dot_T C V_t V_t \<sigma>6"
    and "w = (if IsZero_T C (tiny B) st \<or> IsZero_T C (tiny B) tt then c_zero C else c_div C st tt)"
    and "\<sigma>7 = \<sigma>6\<lparr>omega := Some w\<rparr>"
    and "\<sigma>8 = axpy_T C (c_neg C alpha) V_d V_x \<sigma>7"
    and "\<sigma>9 = axpy_T C (c_neg C w) s V_x \<sigma>8"
    and "\<sigma>10 = copy s V_h \<sigma>9"
    and "\<sigma>11 = axpy_T C (c_neg C w) V_t V_r \<sigma>10"
    and "\<sigma>12 = \<sigma>11\<lparr>rTr := dot_T C V_r V_r \<sigma>11\<rparr>"
    and "\<sigma>13 = axpy_T C (c_neg C w) V_t V_h \<sigma>12"
    and "beta0 = c_div C (c_div C alpha w) (rTh \<sigma>13)"
    and "\<sigma>14 = \<sigma>13\<lparr>rTh := dot_T C V_rT V_h \<sigma>13\<rparr>"
    and "beta = c_mul C beta0 (rTh \<sigma>14)"
    and "\<sigma>15 = scal_T C beta V_d \<sigma>14"
    and "\<sigma>16 = axpy_T C (c_one C) V_h V_d \<sigma>15"
    and "\<sigma>17 = axpy_T C (c_mul C (c_neg C beta) w) V_Ad V_d \<sigma>16"
  shows "iteration_T C B A \<sigma>0 =
    (if \<not> ndebug B \<and> IsZero_T C (tiny B) rTAd then Inl Assertion_Failed
     else if c_no_quotient C rTAd then Inl Division_By_Zero
     else if IsZero_T C (tiny B) w then Inr (Break, \<sigma>13)
     else if IsZero_T C (tiny B) (rTh \<sigma>13) then Inr (Break, \<sigma>13)
     else Inr (Continue, \<sigma>17\<lparr>its := its \<sigma>17 + 1\<rparr>))"
  unfolding iteration_T_def Let_def assms by (rule refl)

lemma its_blas [simp]:
  "its (copy a b \<sigma>) = its \<sigma>" "its (scal_T C c v \<sigma>) = its \<sigma>" "its (axpy_T C c a b \<sigma>) = its \<sigma>"
  "its (mult_T C A a b \<sigma>) = its \<sigma>" "its (new_vector_T C v n \<sigma>) = its \<sigma>"
  by (simp_all add: copy_def scal_T_def axpy_T_def mult_T_def new_vector_T_def)

lemma iteration_its:
  assumes "iteration_T C B A \<sigma> = Inr (fl, \<sigma>')"
  shows "its \<sigma>' = (if fl = Continue then its \<sigma> + 1 else its \<sigma>)"
proof -
  define s where "s = s_ref B"
  define \<sigma>1 where "\<sigma>1 = mult_T C A V_d V_Ad \<sigma>"
  define rTAd where "rTAd = dot_T C V_rT V_Ad \<sigma>1"
  define alpha where "alpha = c_div C (rTh \<sigma>1) rTAd"
  define \<sigma>2 where "\<sigma>2 = axpy_T C (c_neg C alpha) V_Ad V_r \<sigma>1"
  define \<sigma>3 where "\<sigma>3 = copy V_h s \<sigma>2"
  define \<sigma>4 where "\<sigma>4 = axpy_T C (c_neg C alpha) V_Ad s \<sigma>3"
  define \<sigma>5 where "\<sigma>5 = mult_T C A s V_t \<sigma>4"
  define \<sigma>6 where "\<sigma>6 = (if u_calls B then scal_T C alpha V_u (axpy_T C (c_one C) V_t V_u \<sigma>5) else \<sigma>5)"
  define st where "st = dot_T C s V_t \<sigma>6"
  define tt where "tt = dot_T C V_t V_t \<sigma>6"
  define w where "w = (if IsZero_T C (tiny B) st \<or> IsZero_T C (tiny B) tt then c_zero C else c_div C st tt)"
  define \<sigma>7 where "\<sigma>7 = \<sigma>6\<lparr>omega := Some w\<rparr>"
  define \<sigma>8 where "\<sigma>8 = axpy_T C (c_neg C alpha) V_d V_x \<sigma>7"
  define \<sigma>9 where "\<sigma>9 = axpy_T C (c_neg C w) s V_x \<sigma>8"
  define \<sigma>10 where "\<sigma>10 = copy s V_h \<sigma>9"
  define \<sigma>11 where "\<sigma>11 = axpy_T C (c_neg C w) V_t V_r \<sigma>10"
  define \<sigma>12 where "\<sigma>12 = \<sigma>11\<lparr>rTr := dot_T C V_r V_r \<sigma>11\<rparr>"
  define \<sigma>13 where "\<sigma>13 = axpy_T C (c_neg C w) V_t V_h \<sigma>12"
  define beta0 where "beta0 = c_div C (c_div C alpha w) (rTh \<sigma>13)"
  define \<sigma>14 where "\<sigma>14 = \<sigma>13\<lparr>rTh := dot_T C V_rT V_h \<sigma>13\<rparr>"
  define beta where "beta = c_mul C beta0 (rTh \<sigma>14)"
  define \<sigma>15 where "\<sigma>15 = scal_T C beta V_d \<sigma>14"
  define \<sigma>16 where "\<sigma>16 = axpy_T C (c_one C) V_h V_d \<sigma>15"
  define \<sigma>17 where "\<sigma>17 = axpy_T C (c_mul C (c_neg C beta) w) V_Ad V_d \<sigma>16"
  have i6: "its \<sigma>6 = its \<sigma>"
    by (simp add: \<sigma>6_def \<sigma>5_def \<sigma>4_def \<sigma>3_def \<sigma>2_def \<sigma>1_def)
  have i13: "its \<sigma>13 = its \<sigma>"
    by (simp add: \<sigma>13_def \<sigma>12_def \<sigma>11_def \<sigma>10_def \<sigma>9_def \<sigma>8_def \<sigma>7_def i6)
  have i17: "its \<sigma>17 = its \<sigma>"
    by (simp add: \<sigma>17_def \<sigma>16_def \<sigma>15_def \<sigma>14_def i13)
  have "iteration_T C B A \<sigma> =
    (if \<not> ndebug B \<and> IsZero_T C (tiny B) rTAd then Inl Assertion_Failed
     else if c_no_quotient C rTAd then Inl Division_By_Zero
     else if IsZero_T C (tiny B) w then Inr (Break, \<sigma>13)
     else if IsZero_T C (tiny B) (rTh \<sigma>13) then Inr (Break, \<sigma>13)
     else Inr (Continue, \<sigma>17\<lparr>its := its \<sigma>17 + 1\<rparr>))"
    by (rule iteration_T_unfold [OF s_def \<sigma>1_def rTAd_def alpha_def \<sigma>2_def \<sigma>3_def \<sigma>4_def \<sigma>5_def
          \<sigma>6_def st_def tt_def w_def \<sigma>7_def \<sigma>8_def \<sigma>9_def \<sigma>10_def \<sigma>11_def \<sigma>12_def \<sigma>13_def
          beta0_def \<sigma>14_def beta_def \<sigma>15_def \<sigma>16_def \<sigma>17_def])
  with assms i13 i17 show ?thesis
    by (auto split: if_splits)
qed

lemma its_step_measure:
  fixes i m :: "32 word"
  assumes "i < m"
  shows "unat m - unat (i + 1) < unat m - unat i"
  using assms by unat_arith

subsection \<open>The loop (lines 143-178)\<close>

function loop_T ::
  "'a coeff_type \<Rightarrow> 'a build_T \<Rightarrow> 'a list list \<Rightarrow> 'a \<Rightarrow> 32 word \<Rightarrow> 'a state_T \<Rightarrow> error + 'a state_T" where
  "loop_T C B A err max_iter \<sigma> =
     (if c_less C err (rTr \<sigma>) \<and> its \<sigma> < max_iter then \<comment> \<open>line 143\<close>
        (case iteration_T C B A \<sigma> of
           Inl e \<Rightarrow> Inl e
         | Inr (Break, \<sigma>') \<Rightarrow> Inr \<sigma>'
         | Inr (Continue, \<sigma>') \<Rightarrow> loop_T C B A err max_iter \<sigma>')
      else Inr \<sigma>)"
  by pat_completeness auto
termination
proof (relation "measure (\<lambda>(C, B, A, err, max_iter, \<sigma>). unat max_iter - unat (its \<sigma>))")
  show "wf (measure (\<lambda>(C, B, A, err, max_iter, \<sigma>). unat max_iter - unat (its \<sigma>)))"
    by simp
next
  fix C :: "'a coeff_type" and B :: "'a build_T" and A :: "'a list list" and err :: 'a
    and max_iter :: "32 word" and \<sigma> :: "'a state_T" and p :: "flow \<times> 'a state_T"
    and fl :: flow and \<sigma>' :: "'a state_T"
  assume c: "c_less C err (rTr \<sigma>) \<and> its \<sigma> < max_iter"
    and it: "iteration_T C B A \<sigma> = Inr p" and p: "(fl, \<sigma>') = p" and fl: "fl = Continue"
  from it p fl have "its \<sigma>' = its \<sigma> + 1"
    using iteration_its [of C B A \<sigma> Continue \<sigma>'] by simp
  with c show "((C, B, A, err, max_iter, \<sigma>'), (C, B, A, err, max_iter, \<sigma>))
      \<in> measure (\<lambda>(C, B, A, err, max_iter, \<sigma>). unat max_iter - unat (its \<sigma>))"
    by (simp add: its_step_measure)
qed

declare loop_T.simps [simp del]

subsection \<open>solve (lines 104-183)\<close>

text \<open>
  What \<open>solve\<close> leaves behind: the boolean it returns and the state of its variables at
  that point (\<open>mem \<sigma> V_x\<close> is the caller's \<open>x\<close>, updated in place).
\<close>

record 'a outcome_T =
  success :: bool
  final :: "'a state_T"

text \<open>
  The state at entry: only the arguments \<open>b\<close> and \<open>x\<close> exist. The scalars are declared at
  lines 126-127; their fields hold \<open>0\<close> until the first assignment.
\<close>

definition entry_T :: "'a coeff_type \<Rightarrow> 'a list \<Rightarrow> 'a list \<Rightarrow> 'a state_T" where
  "entry_T C b x = \<lparr>mem = (\<lambda>v. [])(V_b := b, V_x := x), rTh = c_zero C, rTr = c_zero C, omega = None,
     its = 0, n_mult = 0, n_alloc = 0\<rparr>"

text \<open>Lines 113-118: the cap, in \<open>unsigned int\<close> arithmetic.\<close>

definition effective_max_iter :: "'a solver_T \<Rightarrow> 32 word \<Rightarrow> 32 word" where
  "effective_max_iter S n = (if m_max_iter S = 0 then 10 * n else m_max_iter S)"

text \<open>Line 128: the error to reach, \<open>epsilon_ * epsilon_ * dot(b, b)\<close>.\<close>

definition target_T :: "'a coeff_type \<Rightarrow> 'a solver_T \<Rightarrow> 'a state_T \<Rightarrow> 'a" where
  "target_T C S \<sigma> = c_mul C (c_mul C (m_epsilon S) (m_epsilon S)) (dot_T C V_b V_b \<sigma>)"

text \<open>
  Lines 119-137: the working vectors, the loop counter and the initial residue. A build
  whose \<open>s\<close> is not bound to \<open>h\<close> constructs one more vector for it.
\<close>

definition init_T :: "'a coeff_type \<Rightarrow> 'a build_T \<Rightarrow> 'a list list \<Rightarrow> 32 word \<Rightarrow> 'a state_T \<Rightarrow> 'a state_T" where
  "init_T C B A n \<sigma>0 =
    (let k = unat n;
         \<sigma>1 = new_vector_T C V_rT k \<sigma>0; \<comment> \<open>line 119\<close>
         \<sigma>2 = new_vector_T C V_d k \<sigma>1; \<comment> \<open>line 120\<close>
         \<sigma>3 = new_vector_T C V_h k \<sigma>2; \<comment> \<open>line 121\<close>
         \<sigma>4 = new_vector_T C V_u k \<sigma>3; \<comment> \<open>line 122\<close>
         \<sigma>5 = new_vector_T C V_Ad k \<sigma>4; \<comment> \<open>line 123\<close>
         \<sigma>6 = new_vector_T C V_t k \<sigma>5; \<comment> \<open>line 124\<close>
         \<sigma>7 = (if s_ref B = V_h then \<sigma>6 else new_vector_T C (s_ref B) k \<sigma>6); \<comment> \<open>line 125\<close>
         \<sigma>8 = \<sigma>7\<lparr>its := 0\<rparr>; \<comment> \<open>line 127\<close>
         \<sigma>9 = new_vector_T C V_r k \<sigma>8; \<comment> \<open>line 130\<close>
         \<sigma>10 = mult_T C A V_x V_r \<sigma>9; \<comment> \<open>line 131\<close>
         \<sigma>11 = axpy_T C (c_neg C (c_one C)) V_b V_r \<sigma>10; \<comment> \<open>line 132\<close>
         \<sigma>12 = copy V_r V_d \<sigma>11; \<comment> \<open>line 135\<close>
         \<sigma>13 = copy V_d V_h \<sigma>12 \<comment> \<open>line 136\<close>
     in copy V_h V_rT \<sigma>13) \<comment> \<open>line 137\<close>"

text \<open>Lines 140-141: the scalars carried by the loop, before its first test.\<close>

definition first_scalars_T :: "'a coeff_type \<Rightarrow> 'a state_T \<Rightarrow> 'a state_T" where
  "first_scalars_T C \<sigma>1 =
    (let \<sigma>2 = \<sigma>1\<lparr>rTh := dot_T C V_rT V_h \<sigma>1\<rparr>
     in \<sigma>2\<lparr>rTr := dot_T C V_r V_r \<sigma>2\<rparr>)"

text \<open>Lines 180-182: the value returned, with the state that the trace line prints.\<close>

definition finish_T :: "'a coeff_type \<Rightarrow> 'a \<Rightarrow> 'a state_T \<Rightarrow> 'a outcome_T" where
  "finish_T C err \<sigma> = \<lparr>success = c_less_eq C (rTr \<sigma>) err, final = \<sigma>\<rparr>"

text \<open>Lines 143-182: the loop from a state at its head, then the return.\<close>

definition run_loop_T ::
  "'a coeff_type \<Rightarrow> 'a build_T \<Rightarrow> 'a list list \<Rightarrow> 'a \<Rightarrow> 32 word \<Rightarrow> 'a state_T \<Rightarrow> error + 'a outcome_T" where
  "run_loop_T C B A err max_iter \<sigma> =
     (case loop_T C B A err max_iter \<sigma> of Inl e \<Rightarrow> Inl e | Inr \<sigma>' \<Rightarrow> Inr (finish_T C err \<sigma>'))"

text \<open>
  \<open>solve_T C B S A b x\<close> is the call \<open>solve(A, b, x)\<close> on the solver object \<open>S\<close>; the source's
  function is \<open>solve_T C (as_written nd t)\<close>. \<open>A.dimension()\<close>, \<open>b.dimension()\<close> and
  \<open>x.dimension()\<close> are the lengths of the lists.
\<close>

definition solve_T ::
  "'a coeff_type \<Rightarrow> 'a build_T \<Rightarrow> 'a solver_T \<Rightarrow> 'a list list \<Rightarrow> 'a list \<Rightarrow> 'a list \<Rightarrow> error + 'a outcome_T" where
  "solve_T C B S A b x =
    (if length A \<noteq> length b then Inr \<lparr>success = False, final = entry_T C b x\<rparr> \<comment> \<open>lines 106-107\<close>
     else if length A \<noteq> length x then Inr \<lparr>success = False, final = entry_T C b x\<rparr> \<comment> \<open>lines 108-109\<close>
     else if length A \<le> 0 then Inr \<lparr>success = False, final = entry_T C b x\<rparr> \<comment> \<open>lines 110-111\<close>
     else
      (let n = (of_nat (length A) :: 32 word); \<comment> \<open>line 113\<close>
           max_iter = effective_max_iter S n; \<comment> \<open>lines 114-118\<close>
           err = target_T C S (entry_T C b x); \<comment> \<open>line 128\<close>
           \<sigma>1 = init_T C B A n (entry_T C b x) \<comment> \<open>lines 119-137\<close>
       in if \<not> ndebug B \<and> IsZero_T C (tiny B) (dot_T C V_rT V_rT \<sigma>1) then Inl Assertion_Failed \<comment> \<open>line 138\<close>
          else run_loop_T C B A err max_iter (first_scalars_T C \<sigma>1) \<comment> \<open>lines 140-182\<close>))"

section \<open>The solver over the real numbers\<close>

text \<open>
  \<open>CoeffType\<close> instantiated with the ordered field \<open>real\<close>. Every operation is exact. A
  quotient with the divisor 0 is not a real number.
\<close>

definition real_ops :: "real coeff_type" where
  "real_ops = \<lparr>c_zero = 0, c_one = 1, c_ten = 10, c_neg = uminus, c_add = (+), c_mul = (*),
     c_div = (/), c_fabs = abs, c_less = (<), c_less_eq = (\<le>), c_no_quotient = (\<lambda>d. d = 0)\<rparr>"

type_synonym vector = "real list"

type_synonym matrix = "real list list"

type_synonym store = "vname \<Rightarrow> vector"

type_synonym state = "real state_T"

type_synonym solver = "real solver_T"

type_synonym build = "real build_T"

type_synonym outcome = "real outcome_T"

text \<open>The constructor (lines 90-94): \<open>epsilon_ = 1e-4\<close>, \<open>max_iter_ = 0\<close>.\<close>

definition Solver_BICGSTAB :: solver where
  "Solver_BICGSTAB = \<lparr>m_epsilon = 1 / 10 ^ 4, m_max_iter = 0\<rparr>"

text \<open>\<open>numeric_limits<double>::min()\<close>, the smallest positive normalised \<open>double\<close>, as a real number.\<close>

definition DBL_MIN :: real where
  "DBL_MIN = 1 / 2 ^ 1022"

text \<open>The functions of the solver at \<open>CoeffType = real\<close>, under the names of the source.\<close>

abbreviation IsZero :: "real \<Rightarrow> real \<Rightarrow> bool" where
  "IsZero \<equiv> IsZero_T real_ops"

abbreviation dotl :: "vector \<Rightarrow> vector \<Rightarrow> real" where
  "dotl \<equiv> dotl_T real_ops"

abbreviation axpyl :: "real \<Rightarrow> vector \<Rightarrow> vector \<Rightarrow> vector" where
  "axpyl \<equiv> axpyl_T real_ops"

abbreviation matvec :: "matrix \<Rightarrow> vector \<Rightarrow> vector" where
  "matvec \<equiv> matvec_T real_ops"

abbreviation scal :: "real \<Rightarrow> vname \<Rightarrow> state \<Rightarrow> state" where
  "scal \<equiv> scal_T real_ops"

abbreviation axpy :: "real \<Rightarrow> vname \<Rightarrow> vname \<Rightarrow> state \<Rightarrow> state" where
  "axpy \<equiv> axpy_T real_ops"

abbreviation dot :: "vname \<Rightarrow> vname \<Rightarrow> state \<Rightarrow> real" where
  "dot \<equiv> dot_T real_ops"

abbreviation mult :: "matrix \<Rightarrow> vname \<Rightarrow> vname \<Rightarrow> state \<Rightarrow> state" where
  "mult \<equiv> mult_T real_ops"

abbreviation new_vector :: "vname \<Rightarrow> nat \<Rightarrow> state \<Rightarrow> state" where
  "new_vector \<equiv> new_vector_T real_ops"

abbreviation iteration :: "build \<Rightarrow> matrix \<Rightarrow> state \<Rightarrow> error + flow \<times> state" where
  "iteration \<equiv> iteration_T real_ops"

abbreviation loop :: "build \<Rightarrow> matrix \<Rightarrow> real \<Rightarrow> 32 word \<Rightarrow> state \<Rightarrow> error + state" where
  "loop \<equiv> loop_T real_ops"

abbreviation entry :: "vector \<Rightarrow> vector \<Rightarrow> state" where
  "entry \<equiv> entry_T real_ops"

abbreviation target :: "solver \<Rightarrow> state \<Rightarrow> real" where
  "target \<equiv> target_T real_ops"

abbreviation init :: "build \<Rightarrow> matrix \<Rightarrow> 32 word \<Rightarrow> state \<Rightarrow> state" where
  "init \<equiv> init_T real_ops"

abbreviation first_scalars :: "state \<Rightarrow> state" where
  "first_scalars \<equiv> first_scalars_T real_ops"

abbreviation finish :: "real \<Rightarrow> state \<Rightarrow> outcome" where
  "finish \<equiv> finish_T real_ops"

abbreviation run_loop :: "build \<Rightarrow> matrix \<Rightarrow> real \<Rightarrow> 32 word \<Rightarrow> state \<Rightarrow> error + outcome" where
  "run_loop \<equiv> run_loop_T real_ops"

abbreviation solve :: "build \<Rightarrow> solver \<Rightarrow> matrix \<Rightarrow> vector \<Rightarrow> vector \<Rightarrow> error + outcome" where
  "solve \<equiv> solve_T real_ops"

text \<open>The defining equations at \<open>CoeffType = real\<close>, with the operations of the field written out.\<close>

lemma real_ops_simps:
  "c_zero real_ops = 0" "c_one real_ops = 1" "c_ten real_ops = 10" "c_neg real_ops = uminus"
  "c_add real_ops = (+)" "c_mul real_ops = (*)" "c_div real_ops = (/)" "c_fabs real_ops = abs"
  "c_less real_ops = (<)" "c_less_eq real_ops = (\<le>)" "c_no_quotient real_ops = (\<lambda>d. d = 0)"
  by (simp_all add: real_ops_def)

lemmas IsZero_def = IsZero_T_def [of real_ops, unfolded real_ops_simps]

lemma foldl_dot_real:
  "foldl (\<lambda>acc (xi, yi). acc + xi * yi) z ps = z + sum_list (map (\<lambda>(xi, yi). xi * yi) ps)"
  for z :: real
  by (induction ps arbitrary: z) (simp_all add: case_prod_beta)

lemma dotl_def: "dotl x y = sum_list (map2 (\<lambda>xi yi. xi * yi) x y)"
  unfolding dotl_T_def real_ops_simps foldl_dot_real by simp

lemmas axpyl_def = axpyl_T_def [of real_ops, unfolded real_ops_simps]

lemmas matvec_def = matvec_T_def [of real_ops]

lemmas scal_def = scal_T_def [of real_ops, unfolded real_ops_simps]

lemmas axpy_def = axpy_T_def [of real_ops]

lemmas dot_def = dot_T_def [of real_ops]

lemmas mult_def = mult_T_def [of real_ops]

lemmas new_vector_def = new_vector_T_def [of real_ops, unfolded real_ops_simps]

lemmas iteration_def = iteration_T_def [of real_ops, unfolded real_ops_simps]

lemmas iteration_unfold = iteration_T_unfold [of _ _ _ real_ops, unfolded real_ops_simps]

lemmas loop_simps = loop_T.simps [of real_ops, unfolded real_ops_simps]

lemmas entry_def = entry_T_def [of real_ops, unfolded real_ops_simps]

lemmas target_def = target_T_def [of real_ops, unfolded real_ops_simps]

lemmas init_def = init_T_def [of real_ops, unfolded real_ops_simps]

lemmas first_scalars_def = first_scalars_T_def [of real_ops]

lemmas finish_def = finish_T_def [of real_ops, unfolded real_ops_simps]

lemmas run_loop_def = run_loop_T_def [of real_ops]

lemmas solve_def = solve_T_def [of real_ops]

section \<open>The solver over \<open>double\<close>\<close>

text \<open>
  \<open>CoeffType\<close> instantiated with \<open>double\<close>, the binary64 format of IEEE 754 with the default
  rounding (to nearest, ties to even) and no traps. A value is a finite number with its
  sign and its magnitude (so that \<open>+0\<close> and \<open>-0\<close> differ), an infinity with its sign, or a
  NaN. The sign is \<open>True\<close> for negative. The magnitude of a finite value is a number of the
  format: a multiple of \<open>2^-1074\<close> below \<open>2^-1022\<close>, or \<open>k * 2^(e-52)\<close> with
  \<open>2^52 \<le> k < 2^53\<close> and \<open>-1022 \<le> e \<le> 1023\<close>.
\<close>

datatype double = Finite bool real | Infinity bool | NaN

text \<open>\<open>p2 e\<close> is the real number \<open>2^e\<close>.\<close>

definition p2 :: "int \<Rightarrow> real" where
  "p2 e = 2 powi e"

text \<open>The integer nearest to \<open>y\<close>, the even one of the two when \<open>y\<close> is half-way.\<close>

definition round_half_even :: "real \<Rightarrow> int" where
  "round_half_even y =
     (let f = \<lfloor>y\<rfloor>; d = y - of_int f
      in if d < 1 / 2 then f else if 1 / 2 < d then f + 1 else if even f then f else f + 1)"

text \<open>
  A positive real \<open>m\<close> rounded to 53 significant bits, the exponent unbounded above and
  not below \<open>-1022\<close>: \<open>q\<close> is the spacing of the format around \<open>m\<close>.
\<close>

definition round_mag :: "real \<Rightarrow> real" where
  "round_mag m =
     (let e = max \<lfloor>log 2 m\<rfloor> (- 1022); q = p2 (e - 52)
      in of_int (round_half_even (m / q)) * q)"

text \<open>
  The \<open>double\<close> that an operation returns when its exact result has the sign \<open>s\<close> and the
  magnitude \<open>m\<close>: the rounded value, an infinity when that is \<open>2^1024\<close> or more.
\<close>

definition fround :: "bool \<Rightarrow> real \<Rightarrow> double" where
  "fround s m =
     (if m = 0 then Finite s 0
      else if p2 1024 \<le> round_mag m then Infinity s
      else Finite s (round_mag m))"

definition signed :: "bool \<Rightarrow> real \<Rightarrow> real" where
  "signed s m = (if s then - m else m)"

fun d_neg :: "double \<Rightarrow> double" where
  "d_neg (Finite s m) = Finite (\<not> s) m"
| "d_neg (Infinity s) = Infinity (\<not> s)"
| "d_neg NaN = NaN"

fun d_fabs :: "double \<Rightarrow> double" where
  "d_fabs (Finite s m) = Finite False m"
| "d_fabs (Infinity s) = Infinity False"
| "d_fabs NaN = NaN"

fun d_mul :: "double \<Rightarrow> double \<Rightarrow> double" where
  "d_mul NaN b = NaN"
| "d_mul a NaN = NaN"
| "d_mul (Infinity s) (Infinity s') = Infinity (s \<noteq> s')"
| "d_mul (Infinity s) (Finite s' m') = (if m' = 0 then NaN else Infinity (s \<noteq> s'))"
| "d_mul (Finite s m) (Infinity s') = (if m = 0 then NaN else Infinity (s \<noteq> s'))"
| "d_mul (Finite s m) (Finite s' m') = fround (s \<noteq> s') (m * m')"

fun d_div :: "double \<Rightarrow> double \<Rightarrow> double" where
  "d_div NaN b = NaN"
| "d_div a NaN = NaN"
| "d_div (Infinity s) (Infinity s') = NaN"
| "d_div (Infinity s) (Finite s' m') = Infinity (s \<noteq> s')"
| "d_div (Finite s m) (Infinity s') = Finite (s \<noteq> s') 0"
| "d_div (Finite s m) (Finite s' m') =
     (if m' = 0 then (if m = 0 then NaN else Infinity (s \<noteq> s')) else fround (s \<noteq> s') (m / m'))"

text \<open>A sum that is exactly zero is \<open>-0\<close> when both terms are \<open>-0\<close>, and \<open>+0\<close> otherwise.\<close>

fun d_add :: "double \<Rightarrow> double \<Rightarrow> double" where
  "d_add NaN b = NaN"
| "d_add a NaN = NaN"
| "d_add (Infinity s) (Infinity s') = (if s = s' then Infinity s else NaN)"
| "d_add (Infinity s) (Finite s' m') = Infinity s"
| "d_add (Finite s m) (Infinity s') = Infinity s'"
| "d_add (Finite s m) (Finite s' m') =
     (let v = signed s m + signed s' m'
      in if v = 0 then Finite (s \<and> s') 0 else fround (v < 0) \<bar>v\<bar>)"

text \<open>The comparisons: false when an operand is a NaN; \<open>+0\<close> and \<open>-0\<close> compare equal.\<close>

fun d_less :: "double \<Rightarrow> double \<Rightarrow> bool" where
  "d_less NaN b = False"
| "d_less a NaN = False"
| "d_less (Infinity s) (Infinity s') = (s \<and> \<not> s')"
| "d_less (Infinity s) (Finite s' m') = s"
| "d_less (Finite s m) (Infinity s') = (\<not> s')"
| "d_less (Finite s m) (Finite s' m') = (signed s m < signed s' m')"

fun d_less_eq :: "double \<Rightarrow> double \<Rightarrow> bool" where
  "d_less_eq NaN b = False"
| "d_less_eq a NaN = False"
| "d_less_eq (Infinity s) (Infinity s') = (s \<or> \<not> s')"
| "d_less_eq (Infinity s) (Finite s' m') = s"
| "d_less_eq (Finite s m) (Infinity s') = (\<not> s')"
| "d_less_eq (Finite s m) (Finite s' m') = (signed s m \<le> signed s' m')"

text \<open>
  The arithmetic of \<open>double\<close>. The literals \<open>0\<close>, \<open>1\<close> and \<open>10.0\<close> are numbers of the format.
  Every divisor has a quotient.
\<close>

definition double_ops :: "double coeff_type" where
  "double_ops = \<lparr>c_zero = Finite False 0, c_one = Finite False 1, c_ten = Finite False 10,
     c_neg = d_neg, c_add = d_add, c_mul = d_mul, c_div = d_div, c_fabs = d_fabs,
     c_less = d_less, c_less_eq = d_less_eq, c_no_quotient = (\<lambda>d. False)\<rparr>"

text \<open>\<open>numeric_limits<double>::min()\<close> as a \<open>double\<close>, and the \<open>double\<close> that is \<open>2^e\<close>.\<close>

definition DBL_MIN_double :: double where
  "DBL_MIN_double = Finite False (p2 (- 1022))"

definition pow2 :: "int \<Rightarrow> double" where
  "pow2 e = Finite False (p2 e)"

text \<open>
  The constructor (lines 90-94) at \<open>CoeffType = double\<close>: the literal \<open>1e-4\<close> is the \<open>double\<close>
  nearest to \<open>1/10^4\<close>.
\<close>

definition Solver_BICGSTAB_double :: "double solver_T" where
  "Solver_BICGSTAB_double = \<lparr>m_epsilon = fround False (1 / 10 ^ 4), m_max_iter = 0\<rparr>"

section \<open>Notions used to state the claims\<close>

text \<open>The state in which the loop condition of line 143 is tested for the first time.\<close>

definition start :: "build \<Rightarrow> matrix \<Rightarrow> vector \<Rightarrow> vector \<Rightarrow> state" where
  "start B A b x = first_scalars (init B A (of_nat (length A)) (entry b x))"

text \<open>
  \<open>loop_head B A err mx k \<sigma>\<close> is the state at the test of the loop condition that follows
  \<open>k\<close> complete passes of the body from \<open>\<sigma>\<close>, when the loop gets that far.
\<close>

fun loop_head :: "build \<Rightarrow> matrix \<Rightarrow> real \<Rightarrow> 32 word \<Rightarrow> nat \<Rightarrow> state \<Rightarrow> state option" where
  "loop_head B A err mx 0 \<sigma> = Some \<sigma>"
| "loop_head B A err mx (Suc k) \<sigma> =
     (if err < rTr \<sigma> \<and> its \<sigma> < mx then
        (case iteration B A \<sigma> of
           Inr (Continue, \<sigma>') \<Rightarrow> loop_head B A err mx k \<sigma>'
         | _ \<Rightarrow> None)
      else None)"

text \<open>What a caller of \<open>solve\<close> observes: the boolean, the final \<open>x\<close> and the counter of the trace.\<close>

definition observe :: "error + 'a outcome_T \<Rightarrow> error + bool \<times> 'a list \<times> 32 word" where
  "observe r = map_sum id (\<lambda>out. (success out, mem (final out) V_x, its (final out))) r"

text \<open>
  The scalars of the state that the trace of line 181 prints: \<open>rTr\<close>, \<open>omega\<close> and \<open>rTh\<close>.
\<close>

definition reported :: "error + 'a outcome_T \<Rightarrow> error + 'a \<times> 'a option \<times> 'a" where
  "reported r = map_sum id (\<lambda>out. (rTr (final out), omega (final out), rTh (final out))) r"


text \<open>
  The residue of \<open>x\<close>, recomputed from \<open>A\<close>, \<open>x\<close> and \<open>b\<close> alone: \<open>A x - b\<close>, component by
  component.
\<close>

definition residual :: "matrix \<Rightarrow> vector \<Rightarrow> vector \<Rightarrow> vector" where
  "residual A x b = map2 (\<lambda>axi bi. axi - bi) (matvec A x) b"

subsection \<open>The body in closed form\<close>

text \<open>
  The quantities one execution of the body computes from the state at the loop head, as
  functions of that state: \<open>rTAd\<close>, \<open>\<alpha>\<close>, \<open>s = h - \<alpha> Ad\<close>, \<open>\<omega>\<close>, the new \<open>r\<close>, \<open>x\<close>, \<open>h\<close>, \<open>u\<close>,
  \<open>\<beta>\<close> and the new \<open>d\<close>. \<open>updated\<close> is the state after line 166, \<open>redirected\<close> the state after
  line 177. Lemma \<open>iteration_eq\<close> derives them from the definition of the body.
\<close>

definition rTAd_of :: "matrix \<Rightarrow> state \<Rightarrow> real" where
  "rTAd_of A \<sigma> = dotl (mem \<sigma> V_rT) (matvec A (mem \<sigma> V_d))"

definition alpha_of :: "matrix \<Rightarrow> state \<Rightarrow> real" where
  "alpha_of A \<sigma> = rTh \<sigma> / rTAd_of A \<sigma>"

definition s_of :: "matrix \<Rightarrow> state \<Rightarrow> vector" where
  "s_of A \<sigma> = axpyl (- alpha_of A \<sigma>) (matvec A (mem \<sigma> V_d)) (mem \<sigma> V_h)"

definition omega_of :: "real \<Rightarrow> matrix \<Rightarrow> state \<Rightarrow> real" where
  "omega_of t A \<sigma> =
     (if IsZero t (dotl (s_of A \<sigma>) (matvec A (s_of A \<sigma>)))
         \<or> IsZero t (dotl (matvec A (s_of A \<sigma>)) (matvec A (s_of A \<sigma>)))
      then 0
      else dotl (s_of A \<sigma>) (matvec A (s_of A \<sigma>))
           / dotl (matvec A (s_of A \<sigma>)) (matvec A (s_of A \<sigma>)))"

definition r_of :: "real \<Rightarrow> matrix \<Rightarrow> state \<Rightarrow> vector" where
  "r_of t A \<sigma> = axpyl (- omega_of t A \<sigma>) (matvec A (s_of A \<sigma>))
                  (axpyl (- alpha_of A \<sigma>) (matvec A (mem \<sigma> V_d)) (mem \<sigma> V_r))"

definition x_of :: "real \<Rightarrow> matrix \<Rightarrow> state \<Rightarrow> vector" where
  "x_of t A \<sigma> = axpyl (- omega_of t A \<sigma>) (s_of A \<sigma>)
                  (axpyl (- alpha_of A \<sigma>) (mem \<sigma> V_d) (mem \<sigma> V_x))"

definition h_of :: "real \<Rightarrow> matrix \<Rightarrow> state \<Rightarrow> vector" where
  "h_of t A \<sigma> = axpyl (- omega_of t A \<sigma>) (matvec A (s_of A \<sigma>)) (s_of A \<sigma>)"

definition u_of :: "build \<Rightarrow> matrix \<Rightarrow> state \<Rightarrow> vector" where
  "u_of B A \<sigma> =
     (if u_calls B
      then map (\<lambda>vi. alpha_of A \<sigma> * vi) (axpyl 1 (matvec A (s_of A \<sigma>)) (mem \<sigma> V_u))
      else mem \<sigma> V_u)"

definition updated :: "build \<Rightarrow> matrix \<Rightarrow> state \<Rightarrow> state" where
  "updated B A \<sigma> =
     \<sigma>\<lparr>mem := (mem \<sigma>)
            (V_Ad := matvec A (mem \<sigma> V_d),
             V_t := matvec A (s_of A \<sigma>),
             V_u := u_of B A \<sigma>,
             V_s := (if s_ref B = V_s then s_of A \<sigma> else mem \<sigma> V_s),
             V_x := x_of (tiny B) A \<sigma>,
             V_r := r_of (tiny B) A \<sigma>,
             V_h := h_of (tiny B) A \<sigma>),
       rTr := dotl (r_of (tiny B) A \<sigma>) (r_of (tiny B) A \<sigma>),
       omega := Some (omega_of (tiny B) A \<sigma>),
       n_mult := Suc (Suc (n_mult \<sigma>))\<rparr>"

definition beta_of :: "real \<Rightarrow> matrix \<Rightarrow> state \<Rightarrow> real" where
  "beta_of t A \<sigma> =
     (alpha_of A \<sigma> / omega_of t A \<sigma>) / rTh \<sigma> * dotl (mem \<sigma> V_rT) (h_of t A \<sigma>)"

definition d_of :: "real \<Rightarrow> matrix \<Rightarrow> state \<Rightarrow> vector" where
  "d_of t A \<sigma> =
     axpyl (- beta_of t A \<sigma> * omega_of t A \<sigma>) (matvec A (mem \<sigma> V_d))
       (axpyl 1 (h_of t A \<sigma>) (map (\<lambda>vi. beta_of t A \<sigma> * vi) (mem \<sigma> V_d)))"

definition redirected :: "build \<Rightarrow> matrix \<Rightarrow> state \<Rightarrow> state" where
  "redirected B A \<sigma> =
     (updated B A \<sigma>)
       \<lparr>mem := (mem (updated B A \<sigma>))(V_d := d_of (tiny B) A \<sigma>),
        rTh := dotl (mem \<sigma> V_rT) (h_of (tiny B) A \<sigma>),
        its := its \<sigma> + 1\<rparr>"

subsection \<open>The residue invariant\<close>

text \<open>
  What the loop maintains about the residue: \<open>r\<close> is \<open>A x - b\<close> for the current \<open>x\<close>, \<open>rTr\<close> is
  \<open>(r, r)\<close>, and the vectors that enter the products have the dimension of \<open>A\<close>.
\<close>

definition residual_inv :: "matrix \<Rightarrow> vector \<Rightarrow> state \<Rightarrow> bool" where
  "residual_inv A b \<sigma> \<longleftrightarrow>
     mem \<sigma> V_r = residual A (mem \<sigma> V_x) b \<and> rTr \<sigma> = dotl (mem \<sigma> V_r) (mem \<sigma> V_r)
     \<and> length b = length A \<and> length (mem \<sigma> V_x) = length A
     \<and> length (mem \<sigma> V_d) = length A \<and> length (mem \<sigma> V_h) = length A"

subsection \<open>Builds that differ in a buffer the solver never reads\<close>

text \<open>
  \<open>erase v \<sigma>\<close> forgets the contents of the buffer \<open>v\<close> and the count of constructed vectors.
\<close>

definition erase :: "vname \<Rightarrow> state \<Rightarrow> state" where
  "erase v \<sigma> = \<sigma>\<lparr>mem := (mem \<sigma>)(v := []), n_alloc := 0\<rparr>"

text \<open>
  Two builds agree except on \<open>v\<close>: same \<open>NDEBUG\<close>, same \<open>tiny\<close>, \<open>s\<close> bound to \<open>h\<close> or to its
  own buffer, and either \<open>v\<close> is \<open>u\<close> and \<open>s\<close> is bound alike, or \<open>v\<close> is the buffer of \<open>s\<close> and
  the calls on \<open>u\<close> are made alike.
\<close>

definition agree_except :: "vname \<Rightarrow> build \<Rightarrow> build \<Rightarrow> bool" where
  "agree_except v B B' \<longleftrightarrow>
     ndebug B = ndebug B' \<and> tiny B = tiny B'
     \<and> (s_ref B = V_h \<or> s_ref B = V_s) \<and> (s_ref B' = V_h \<or> s_ref B' = V_s)
     \<and> (v = V_u \<and> s_ref B = s_ref B' \<or> v = V_s \<and> u_calls B = u_calls B')"

section \<open>Lemmas\<close>

subsection \<open>The body in closed form, derived\<close>

lemma build_as_written [simp]:
  "ndebug (as_written nd t) = nd" "tiny (as_written nd t) = t"
  "s_ref (as_written nd t) = V_h" "u_calls (as_written nd t) = True"
  by (simp_all add: as_written_def)

lemmas blas_defs = copy_def scal_def axpy_def dot_def mult_def new_vector_def

lemmas derived_defs = rTAd_of_def alpha_of_def s_of_def omega_of_def r_of_def x_of_def h_of_def
  u_of_def updated_def beta_of_def d_of_def redirected_def

lemma iteration_eq:
  assumes sref: "s_ref B = V_h \<or> s_ref B = V_s"
  shows "iteration B A \<sigma> =
    (if \<not> ndebug B \<and> IsZero (tiny B) (rTAd_of A \<sigma>) then Inl Assertion_Failed
     else if rTAd_of A \<sigma> = 0 then Inl Division_By_Zero
     else if IsZero (tiny B) (omega_of (tiny B) A \<sigma>) \<or> IsZero (tiny B) (rTh \<sigma>)
       then Inr (Break, updated B A \<sigma>)
     else Inr (Continue, redirected B A \<sigma>))"
proof -
  define s where "s = s_ref B"
  define Ad where "Ad = matvec A (mem \<sigma> V_d)"
  define rTAd where "rTAd = rTAd_of A \<sigma>"
  define alpha where "alpha = alpha_of A \<sigma>"
  define sv where "sv = s_of A \<sigma>"
  define tv where "tv = matvec A sv"
  define w where "w = omega_of (tiny B) A \<sigma>"
  define beta where "beta = beta_of (tiny B) A \<sigma>"
  define \<sigma>1 where "\<sigma>1 = mult A V_d V_Ad \<sigma>"
  define \<sigma>2 where "\<sigma>2 = axpy (- alpha) V_Ad V_r \<sigma>1"
  define \<sigma>3 where "\<sigma>3 = copy V_h s \<sigma>2"
  define \<sigma>4 where "\<sigma>4 = axpy (- alpha) V_Ad s \<sigma>3"
  define \<sigma>5 where "\<sigma>5 = mult A s V_t \<sigma>4"
  define \<sigma>6 where "\<sigma>6 = (if u_calls B then scal alpha V_u (axpy 1 V_t V_u \<sigma>5) else \<sigma>5)"
  define \<sigma>7 where "\<sigma>7 = \<sigma>6\<lparr>omega := Some w\<rparr>"
  define \<sigma>8 where "\<sigma>8 = axpy (- alpha) V_d V_x \<sigma>7"
  define \<sigma>9 where "\<sigma>9 = axpy (- w) s V_x \<sigma>8"
  define \<sigma>10 where "\<sigma>10 = copy s V_h \<sigma>9"
  define \<sigma>11 where "\<sigma>11 = axpy (- w) V_t V_r \<sigma>10"
  define \<sigma>12 where "\<sigma>12 = \<sigma>11\<lparr>rTr := dot V_r V_r \<sigma>11\<rparr>"
  define \<sigma>13 where "\<sigma>13 = axpy (- w) V_t V_h \<sigma>12"
  define \<sigma>14 where "\<sigma>14 = \<sigma>13\<lparr>rTh := dot V_rT V_h \<sigma>13\<rparr>"
  define \<sigma>15 where "\<sigma>15 = scal beta V_d \<sigma>14"
  define \<sigma>16 where "\<sigma>16 = axpy 1 V_h V_d \<sigma>15"
  define \<sigma>17 where "\<sigma>17 = axpy (- beta * w) V_Ad V_d \<sigma>16"
  from sref have sne [simp]:
    "s \<noteq> V_x" "s \<noteq> V_b" "s \<noteq> V_rT" "s \<noteq> V_d" "s \<noteq> V_u" "s \<noteq> V_Ad" "s \<noteq> V_t" "s \<noteq> V_r"
    "V_x \<noteq> s" "V_b \<noteq> s" "V_rT \<noteq> s" "V_d \<noteq> s" "V_u \<noteq> s" "V_Ad \<noteq> s" "V_t \<noteq> s" "V_r \<noteq> s"
    by (auto simp: s_def)
  have m1: "mem \<sigma>1 = (mem \<sigma>)(V_Ad := Ad)"
    by (simp add: \<sigma>1_def mult_def Ad_def)
  have e1: "rTAd = dot V_rT V_Ad \<sigma>1"
    by (simp add: rTAd_def rTAd_of_def dot_def m1 Ad_def)
  have e2: "alpha = rTh \<sigma>1 / rTAd"
    by (simp add: alpha_def alpha_of_def rTAd_def \<sigma>1_def mult_def)
  have m2: "mem \<sigma>2 = (mem \<sigma>1)(V_r := axpyl (- alpha) Ad (mem \<sigma> V_r))"
    by (simp add: \<sigma>2_def axpy_def m1)
  have m4: "mem \<sigma>4 = (mem \<sigma>2)(s := sv)"
    by (simp add: \<sigma>4_def \<sigma>3_def axpy_def copy_def m2 m1 sv_def s_of_def alpha_def Ad_def)
  have m5: "mem \<sigma>5 = (mem \<sigma>4)(V_t := tv)"
    by (simp add: \<sigma>5_def mult_def m4 tv_def)
  have m6: "mem \<sigma>6 = (mem \<sigma>5)(V_u := u_of B A \<sigma>)"
    by (auto simp add: fun_eq_iff \<sigma>6_def scal_def axpy_def m5 m4 m2 m1 u_of_def tv_def sv_def alpha_def)
  have e3: "dot s V_t \<sigma>6 = dotl sv tv" "dot V_t V_t \<sigma>6 = dotl tv tv"
    by (simp_all add: dot_def m6 m5 m4)
  have e4: "w = (if IsZero (tiny B) (dot s V_t \<sigma>6) \<or> IsZero (tiny B) (dot V_t V_t \<sigma>6) then 0
      else dot s V_t \<sigma>6 / dot V_t V_t \<sigma>6)"
    unfolding e3 by (simp add: w_def omega_of_def tv_def sv_def)
  have m9: "mem \<sigma>9 = (mem \<sigma>6)(V_x := x_of (tiny B) A \<sigma>)"
    by (simp add: \<sigma>9_def \<sigma>8_def \<sigma>7_def axpy_def m6 m5 m4 m2 m1 x_of_def w_def sv_def alpha_def)
  have m10: "mem \<sigma>10 = (mem \<sigma>9)(V_h := sv)"
    by (simp add: \<sigma>10_def copy_def m9 m6 m5 m4)
  have m11: "mem \<sigma>11 = (mem \<sigma>10)(V_r := r_of (tiny B) A \<sigma>)"
    by (simp add: \<sigma>11_def axpy_def m10 m9 m6 m5 m4 m2 r_of_def w_def tv_def sv_def alpha_def Ad_def)
  have m13: "mem \<sigma>13 = (mem \<sigma>11)(V_h := h_of (tiny B) A \<sigma>)"
    by (simp add: \<sigma>13_def \<sigma>12_def axpy_def m11 m10 m9 m6 m5 h_of_def w_def tv_def sv_def)
  have mem13: "mem \<sigma>13 = mem (updated B A \<sigma>)"
    using sref
    by (auto simp: fun_eq_iff m13 m11 m10 m9 m6 m5 m4 m2 m1 updated_def s_def sv_def tv_def Ad_def)
  have sc13: "rTh \<sigma>13 = rTh \<sigma>" "its \<sigma>13 = its \<sigma>" "n_alloc \<sigma>13 = n_alloc \<sigma>"
    "n_mult \<sigma>13 = Suc (Suc (n_mult \<sigma>))" "omega \<sigma>13 = Some w" "state_T.more \<sigma>13 = state_T.more \<sigma>"
    by (simp_all add: \<sigma>13_def \<sigma>12_def \<sigma>11_def \<sigma>10_def \<sigma>9_def \<sigma>8_def \<sigma>7_def \<sigma>6_def \<sigma>5_def \<sigma>4_def
        \<sigma>3_def \<sigma>2_def \<sigma>1_def blas_defs)
  have rTr13: "rTr \<sigma>13 = dotl (r_of (tiny B) A \<sigma>) (r_of (tiny B) A \<sigma>)"
    by (simp add: \<sigma>13_def \<sigma>12_def axpy_def dot_def m11)
  have s13: "\<sigma>13 = updated B A \<sigma>"
    by (rule state_T.equality) (simp_all add: mem13 sc13 rTr13 w_def, simp_all add: updated_def)
  have e5: "beta = (alpha / w) / rTh \<sigma>13 * rTh \<sigma>14"
    by (simp add: beta_def beta_of_def alpha_def w_def sc13 \<sigma>14_def dot_def m13 m11 m10 m9 m6 m5 m4 m2 m1)
  have m17: "mem \<sigma>17 = (mem \<sigma>13)(V_d := d_of (tiny B) A \<sigma>)"
    by (simp add: \<sigma>17_def \<sigma>16_def \<sigma>15_def \<sigma>14_def axpy_def scal_def m13 m11 m10 m9 m6 m5 m4 m2 m1
        d_of_def beta_def w_def Ad_def)
  have s17: "\<sigma>17\<lparr>its := its \<sigma>17 + 1\<rparr> = redirected B A \<sigma>"
    by (rule state_T.equality)
      (simp_all add: redirected_def m17 s13 [symmetric],
       simp_all add: \<sigma>17_def \<sigma>16_def \<sigma>15_def \<sigma>14_def axpy_def scal_def dot_def sc13 m13 m11 m10 m9 m6 m5 m4 m2 m1)
  have "iteration B A \<sigma> =
    (if \<not> ndebug B \<and> IsZero (tiny B) rTAd then Inl Assertion_Failed
     else if rTAd = 0 then Inl Division_By_Zero
     else if IsZero (tiny B) w then Inr (Break, \<sigma>13)
     else if IsZero (tiny B) (rTh \<sigma>13) then Inr (Break, \<sigma>13)
     else Inr (Continue, \<sigma>17\<lparr>its := its \<sigma>17 + 1\<rparr>))"
    by (rule iteration_unfold [OF s_def \<sigma>1_def e1 e2 \<sigma>2_def \<sigma>3_def \<sigma>4_def \<sigma>5_def \<sigma>6_def refl refl e4
          \<sigma>7_def \<sigma>8_def \<sigma>9_def \<sigma>10_def \<sigma>11_def \<sigma>12_def \<sigma>13_def refl \<sigma>14_def e5 \<sigma>15_def \<sigma>16_def \<sigma>17_def])
  moreover have "rTh (updated B A \<sigma>) = rTh \<sigma>"
    by (simp add: updated_def)
  ultimately show ?thesis
    by (simp add: s13 s17 rTAd_def w_def)
qed

subsection \<open>Running the loop\<close>

lemma loop_stop: "\<not> (err < rTr \<sigma> \<and> its \<sigma> < mx) \<Longrightarrow> loop B A err mx \<sigma> = Inr \<sigma>"
  by (subst loop_simps, erule if_not_P)

lemma loop_error:
  "err < rTr \<sigma> \<Longrightarrow> its \<sigma> < mx \<Longrightarrow> iteration B A \<sigma> = Inl e \<Longrightarrow> loop B A err mx \<sigma> = Inl e"
  by (subst loop_simps) simp

lemma loop_break:
  "err < rTr \<sigma> \<Longrightarrow> its \<sigma> < mx \<Longrightarrow> iteration B A \<sigma> = Inr (Break, \<tau>) \<Longrightarrow> loop B A err mx \<sigma> = Inr \<tau>"
  by (subst loop_simps) simp

lemma loop_continue:
  "err < rTr \<sigma> \<Longrightarrow> its \<sigma> < mx \<Longrightarrow> iteration B A \<sigma> = Inr (Continue, \<tau>)
    \<Longrightarrow> loop B A err mx \<sigma> = loop B A err mx \<tau>"
  by (subst loop_simps) simp

lemma loop_rule:
  assumes run: "loop B A err mx \<sigma> = Inr \<sigma>'"
    and init: "P \<sigma>"
    and cont: "\<And>\<sigma> \<tau>. \<lbrakk>P \<sigma>; err < rTr \<sigma>; its \<sigma> < mx; iteration B A \<sigma> = Inr (Continue, \<tau>)\<rbrakk> \<Longrightarrow> P \<tau>"
    and brk: "\<And>\<sigma> \<tau>. \<lbrakk>P \<sigma>; err < rTr \<sigma>; its \<sigma> < mx; iteration B A \<sigma> = Inr (Break, \<tau>)\<rbrakk> \<Longrightarrow> Q \<tau>"
    and stop: "\<And>\<sigma>. \<lbrakk>P \<sigma>; \<not> (err < rTr \<sigma> \<and> its \<sigma> < mx)\<rbrakk> \<Longrightarrow> Q \<sigma>"
  shows "Q \<sigma>'"
  using run init
proof (induction C \<equiv> real_ops B' \<equiv> B A' \<equiv> A err' \<equiv> err mx' \<equiv> mx \<sigma> rule: loop_T.induct)
  case (1 \<sigma>)
  show ?case
  proof (cases "err < rTr \<sigma> \<and> its \<sigma> < mx")
    case False
    with "1.prems"(1) have "\<sigma>' = \<sigma>" by (simp add: loop_stop)
    with "1.prems"(2) stop False show ?thesis by blast
  next
    case True
    show ?thesis
    proof (cases "iteration B A \<sigma>")
      case (Inl e)
      with True "1.prems"(1) show ?thesis by (simp add: loop_error)
    next
      case (Inr p)
      obtain fl \<tau> where p: "p = (fl, \<tau>)" by (cases p)
      show ?thesis
      proof (cases fl)
        case Break
        with True Inr p "1.prems"(1) have "\<sigma>' = \<tau>" by (simp add: loop_break)
        with "1.prems"(2) brk True Inr p Break show ?thesis by blast
      next
        case Continue
        with True Inr p "1.prems"(1) have run: "loop B A err mx \<tau> = Inr \<sigma>'"
          by (simp add: loop_continue)
        have "P \<tau>" using "1.prems"(2) cont True Inr p Continue by blast
        with "1.hyps" [unfolded real_ops_simps] True Inr p Continue run show ?thesis by blast
      qed
    qed
  qed
qed

subsection \<open>The state at the first test of the loop\<close>

lemma solve_valid:
  assumes "length A = length b" "length A = length x" "0 < length A"
  shows "solve B S A b x =
    (if \<not> ndebug B \<and> IsZero (tiny B) (dot V_rT V_rT (init B A (of_nat (length A)) (entry b x)))
     then Inl Assertion_Failed
     else run_loop B A (target S (entry b x)) (effective_max_iter S (of_nat (length A)))
            (start B A b x))"
  using assms by (simp add: solve_def Let_def start_def)

lemma target_entry: "target S (entry b x) = m_epsilon S * m_epsilon S * dotl b b"
  by (simp add: target_def entry_def dot_def)

lemma start_fields:
  assumes "s_ref B = V_h \<or> s_ref B = V_s"
  shows "mem (start B A b x) V_b = b" "mem (start B A b x) V_x = x"
    "mem (start B A b x) V_r = axpyl (- 1) b (matvec A x)"
    "mem (start B A b x) V_d = axpyl (- 1) b (matvec A x)"
    "mem (start B A b x) V_h = axpyl (- 1) b (matvec A x)"
    "mem (start B A b x) V_rT = axpyl (- 1) b (matvec A x)"
    "rTr (start B A b x) = dotl (axpyl (- 1) b (matvec A x)) (axpyl (- 1) b (matvec A x))"
    "rTh (start B A b x) = dotl (axpyl (- 1) b (matvec A x)) (axpyl (- 1) b (matvec A x))"
    "its (start B A b x) = 0" "n_mult (start B A b x) = 1" "omega (start B A b x) = None"
  using assms
  by (auto simp: start_def first_scalars_def Let_def init_def blas_defs entry_def)

subsection \<open>Facts about one execution of the body\<close>

lemma iteration_rTr:
  assumes "s_ref B = V_h \<or> s_ref B = V_s" and "iteration B A \<sigma> = Inr (fl, \<tau>)"
  shows "rTr \<tau> = dotl (mem \<tau> V_r) (mem \<tau> V_r)"
  using assms(2) unfolding iteration_eq [OF assms(1)]
  by (auto simp: updated_def redirected_def split: if_splits)


lemma run_loop_Inr:
  "run_loop B A err mx \<sigma> = Inr out \<longleftrightarrow> (\<exists>\<tau>. loop B A err mx \<sigma> = Inr \<tau> \<and> out = finish err \<tau>)"
  by (auto simp: run_loop_def split: sum.splits)

lemma solve_Inr_valid:
  assumes "length A = length b" "length A = length x" "0 < length A"
    and "solve B S A b x = Inr out"
  shows "loop B A (m_epsilon S * m_epsilon S * dotl b b) (effective_max_iter S (of_nat (length A)))
           (start B A b x) = Inr (final out)
    \<and> success out = (rTr (final out) \<le> m_epsilon S * m_epsilon S * dotl b b)"
  using assms(4) unfolding solve_valid [OF assms(1-3)] target_entry
  by (auto simp: run_loop_Inr finish_def split: if_splits)

lemmas run_simps = solve_def Let_def init_def first_scalars_def run_loop_def loop_simps
  iteration_eq derived_defs blas_defs entry_def finish_def target_def effective_max_iter_def
  set_epsilon_def set_max_iter_def Solver_BICGSTAB_def IsZero_def DBL_MIN_def dotl_def axpyl_def
  matvec_def

text \<open>Scenario 1 of the specification: \<open>A = [[2]]\<close>, \<open>b = [4]\<close>, \<open>x = [0]\<close>, \<open>\<epsilon> = 1e-6\<close>.\<close>

lemma scenario_1:
  "\<exists>out. solve (as_written False DBL_MIN) (set_epsilon (1 / 10 ^ 6) Solver_BICGSTAB) [[2]] [4] [0] = Inr out
     \<and> success out \<and> mem (final out) V_x = [2] \<and> its (final out) = 0 \<and> omega (final out) = Some 0
     \<and> rTr (final out) = 0"
  by (simp add: run_simps)

subsection \<open>The iteration counter\<close>





subsection \<open>The states at which the loop condition is tested\<close>

lemma loop_head_Suc:
  assumes "loop_head B A err mx (Suc k) \<sigma> = Some \<tau>"
  obtains \<sigma>' where "err < rTr \<sigma>" "its \<sigma> < mx" "iteration B A \<sigma> = Inr (Continue, \<sigma>')"
    "loop_head B A err mx k \<sigma>' = Some \<tau>"
  using assms by (auto split: if_splits sum.splits flow.splits)

lemma loop_from_head:
  "loop_head B A err mx k \<sigma> = Some \<tau> \<Longrightarrow> loop B A err mx \<sigma> = loop B A err mx \<tau>"
proof (induction k arbitrary: \<sigma>)
  case 0
  then show ?case by simp
next
  case (Suc k)
  from Suc.prems obtain \<sigma>' where c: "err < rTr \<sigma>" "its \<sigma> < mx"
    and it: "iteration B A \<sigma> = Inr (Continue, \<sigma>')"
    and h: "loop_head B A err mx k \<sigma>' = Some \<tau>"
    by (rule loop_head_Suc)
  from loop_continue [OF c it] Suc.IH [OF h] show ?case by simp
qed

lemma loop_head_inv:
  assumes "loop_head B A err mx k \<sigma> = Some \<tau>" and "P \<sigma>"
    and "\<And>\<sigma> \<tau>. \<lbrakk>P \<sigma>; err < rTr \<sigma>; its \<sigma> < mx; iteration B A \<sigma> = Inr (Continue, \<tau>)\<rbrakk> \<Longrightarrow> P \<tau>"
  shows "P \<tau>"
  using assms(1,2)
proof (induction k arbitrary: \<sigma>)
  case 0
  then show ?case by simp
next
  case (Suc k)
  from Suc.prems(1) obtain \<sigma>' where c: "err < rTr \<sigma>" "its \<sigma> < mx"
    and it: "iteration B A \<sigma> = Inr (Continue, \<sigma>')"
    and h: "loop_head B A err mx k \<sigma>' = Some \<tau>"
    by (rule loop_head_Suc)
  from assms(3) [OF Suc.prems(2) c it] have "P \<sigma>'" .
  with Suc.IH [OF h] show ?case .
qed

lemma solve_from_head:
  assumes v: "length A = length b" "length A = length x" "0 < length A"
    and a: "ndebug B \<or> \<not> IsZero (tiny B) (dot V_rT V_rT (init B A (of_nat (length A)) (entry b x)))"
    and h: "loop_head B A (m_epsilon S * m_epsilon S * dotl b b)
              (effective_max_iter S (of_nat (length A))) k (start B A b x) = Some \<sigma>"
  shows "solve B S A b x = run_loop B A (m_epsilon S * m_epsilon S * dotl b b)
           (effective_max_iter S (of_nat (length A))) \<sigma>"
  using a unfolding solve_valid [OF v] target_entry run_loop_def loop_from_head [OF h]
  by auto

subsection \<open>The guards\<close>

lemma rTAd_of_source: "dot V_rT V_Ad (mult A V_d V_Ad \<sigma>) = rTAd_of A \<sigma>"
  by (simp add: dot_def mult_def rTAd_of_def)




lemma IsZero_DBL_MIN_0: "IsZero DBL_MIN 0"
  by (simp add: IsZero_def DBL_MIN_def)

lemma solve_first_assert:
  assumes "length A = length b" "length A = length x" "0 < length A"
    and "\<not> ndebug B" "IsZero (tiny B) (dot V_rT V_rT (init B A (of_nat (length A)) (entry b x)))"
  shows "solve B S A b x = Inl Assertion_Failed"
  using assms(4,5) by (simp add: solve_valid [OF assms(1-3)])

text \<open>
  The skew system \<open>A = [[0, 1], [-1, 0]]\<close>, \<open>b = [1, 0]\<close>, \<open>x = [0, 0]\<close>: the first pass of the
  body computes \<open>(rT, Ad) = 0\<close>.
\<close>

lemma skew_start:
  "rTAd_of [[0, 1], [- 1, 0]] (start (as_written nd DBL_MIN) [[0, 1], [- 1, 0]] [1, 0] [0, 0]) = 0"
  by (simp add: rTAd_of_def start_fields dotl_def axpyl_def matvec_def)

lemma first_scalars_fields [simp]:
  "mem (first_scalars \<sigma>) = mem \<sigma>" "its (first_scalars \<sigma>) = its \<sigma>"
  "n_mult (first_scalars \<sigma>) = n_mult \<sigma>" "n_alloc (first_scalars \<sigma>) = n_alloc \<sigma>"
  "omega (first_scalars \<sigma>) = omega \<sigma>"
  by (simp_all add: first_scalars_def Let_def)

lemma first_assert_value:
  assumes "s_ref B = V_h \<or> s_ref B = V_s"
  shows "dot V_rT V_rT (init B A (of_nat (length A)) (entry b x))
    = dotl (axpyl (- 1) b (matvec A x)) (axpyl (- 1) b (matvec A x))"
proof -
  have "dot V_rT V_rT (init B A (of_nat (length A)) (entry b x)) = dot V_rT V_rT (start B A b x)"
    by (simp add: dot_def start_def)
  then show ?thesis
    by (simp add: dot_def start_fields [OF assms])
qed


lemma IsZero_DBL_MIN: "IsZero DBL_MIN a \<longleftrightarrow> \<bar>a\<bar> * 2 ^ 1022 < 10"
  by (simp add: IsZero_def DBL_MIN_def field_simps)

lemma scenario_1_start:
  "s_of [[2]] (start (as_written nd t) [[2]] [4] [0]) = [0]"
  "rTAd_of [[2]] (start (as_written nd t) [[2]] [4] [0]) = 32"
  by (simp_all add: derived_defs start_fields dotl_def axpyl_def matvec_def)

lemma observe_scenario_1:
  "observe (solve (as_written False DBL_MIN) (set_epsilon (1 / 10 ^ 6) Solver_BICGSTAB) [[2]] [4] [0])
     = Inr (True, [2], 0)"
  using scenario_1 by (auto simp: observe_def)

text \<open>
  The system \<open>A = [[1, 1], [1, 0]]\<close>, \<open>b = [1, 0]\<close>, \<open>x = [0, 0]\<close>: the first pass of the body
  computes \<open>\<alpha> = 1\<close>, \<open>s = [0, 1]\<close>, \<open>t = [1, 0]\<close> and \<open>st = 0\<close>, sets \<open>\<omega>\<close> to 0 and breaks with
  the residue above the target. Every number of the run is a small integer.
\<close>

lemma breakdown_run_start:
  "rTAd_of [[1, 1], [1, 0]] (start (as_written nd t) [[1, 1], [1, 0]] [1, 0] [0, 0]) = 1"
  "s_of [[1, 1], [1, 0]] (start (as_written nd t) [[1, 1], [1, 0]] [1, 0] [0, 0]) = [0, 1]"
  "rTr (start (as_written nd t) [[1, 1], [1, 0]] [1, 0] [0, 0]) = 1"
  "rTh (start (as_written nd t) [[1, 1], [1, 0]] [1, 0] [0, 0]) = 1"
  "its (start (as_written nd t) [[1, 1], [1, 0]] [1, 0] [0, 0]) = 0"
  by (simp_all add: derived_defs start_fields dotl_def axpyl_def matvec_def)

subsection \<open>Linearity of the matrix-vector product\<close>

lemma length_axpyl [simp]: "length (axpyl a x y) = min (length x) (length y)"
  by (simp add: axpyl_def)

lemma length_matvec [simp]: "length (matvec A x) = length A"
  by (simp add: matvec_def)

lemma length_residual [simp]: "length (residual A x b) = min (length A) (length b)"
  by (simp add: residual_def)

lemma dotl_axpyl:
  "length x = length y \<Longrightarrow> dotl row (axpyl a x y) = dotl row y + a * dotl row x"
proof (induction row arbitrary: x y)
  case Nil
  then show ?case by (simp add: dotl_def)
next
  case (Cons c row)
  show ?case
  proof (cases x)
    case Nil
    with Cons.prems show ?thesis by (simp add: dotl_def axpyl_def)
  next
    case (Cons xi xs)
    with Cons.prems obtain yi ys where y: "y = yi # ys" and l: "length xs = length ys"
      by (cases y) auto
    from Cons.IH [OF l] have "dotl row (axpyl a xs ys) = dotl row ys + a * dotl row xs" .
    with \<open>x = xi # xs\<close> y show ?thesis
      by (simp add: dotl_def axpyl_def algebra_simps)
  qed
qed

lemma matvec_axpyl:
  assumes "length x = length y"
  shows "matvec A (axpyl a x y) = axpyl a (matvec A x) (matvec A y)"
proof -
  have "map2 f (map g A) (map k A) = map (\<lambda>row. f (g row) (k row)) A" for f :: "real \<Rightarrow> real \<Rightarrow> real" and g k
    by (induction A) simp_all
  then show ?thesis
    by (simp add: matvec_def dotl_axpyl [OF assms] axpyl_def [of a "map _ A"])
qed

lemma map2_sub_axpyl:
  assumes "length p = length q" "length q = length b"
  shows "map2 (\<lambda>ai bi. ai - bi) (axpyl c p q) b = axpyl c p (map2 (\<lambda>ai bi. ai - bi) q b)"
  using assms by (intro nth_equalityI) (simp_all add: axpyl_def)

lemma residual_axpyl:
  assumes "length d = length x" "length b = length A"
  shows "residual A (axpyl c d x) b = axpyl c (matvec A d) (residual A x b)"
  using assms by (simp add: residual_def matvec_axpyl map2_sub_axpyl)

lemma residual_init:
  "length b = length A \<Longrightarrow> axpyl (- 1) b (matvec A x) = residual A x b"
  by (intro nth_equalityI) (simp_all add: axpyl_def residual_def)

subsection \<open>The residue invariant, established and preserved\<close>

lemma residual_inv_start:
  assumes "s_ref B = V_h \<or> s_ref B = V_s"
    and "length A = length b" "length A = length x"
  shows "residual_inv A b (start B A b x)"
  using assms(2,3) by (simp add: residual_inv_def start_fields [OF assms(1)] residual_init)

lemma residual_inv_step:
  assumes sref: "s_ref B = V_h \<or> s_ref B = V_s"
    and inv: "residual_inv A b \<sigma>"
    and it: "iteration B A \<sigma> = Inr (fl, \<tau>)"
  shows "residual_inv A b \<tau>"
proof -
  from inv have r: "mem \<sigma> V_r = residual A (mem \<sigma> V_x) b"
    and l: "length b = length A" "length (mem \<sigma> V_x) = length A"
      "length (mem \<sigma> V_d) = length A" "length (mem \<sigma> V_h) = length A"
    by (simp_all add: residual_inv_def)
  have ls: "length (s_of A \<sigma>) = length A"
    by (simp add: s_of_def l)
  have lx: "length (axpyl (- alpha_of A \<sigma>) (mem \<sigma> V_d) (mem \<sigma> V_x)) = length A"
    by (simp add: l)
  have "residual A (x_of (tiny B) A \<sigma>) b = r_of (tiny B) A \<sigma>"
    unfolding x_of_def r_of_def
    by (simp add: residual_axpyl l ls lx r)
  moreover have "length (x_of (tiny B) A \<sigma>) = length A" "length (h_of (tiny B) A \<sigma>) = length A"
    "length (d_of (tiny B) A \<sigma>) = length A"
    by (simp_all add: x_of_def h_of_def d_of_def l ls)
  moreover from it
  have "\<tau> = updated B A \<sigma> \<or> \<tau> = redirected B A \<sigma>"
    unfolding iteration_eq [OF sref] by (auto split: if_splits)
  ultimately show ?thesis
    using l by (auto simp: residual_inv_def updated_def redirected_def)
qed

text \<open>
  The first pass of the body on scenario 2 of the specification ends at line 177, and the
  loop condition is tested a second time.
\<close>

lemma scenario_2_start:
  "rTAd_of [[4, 1], [1, 3]] (start (as_written nd t) [[4, 1], [1, 3]] [1, 2] [0, 0]) = 20"
  "s_of [[4, 1], [1, 3]] (start (as_written nd t) [[4, 1], [1, 3]] [1, 2] [0, 0]) = [1 / 2, - 1 / 4]"
  "rTh (start (as_written nd t) [[4, 1], [1, 3]] [1, 2] [0, 0]) = 5"
  "rTr (start (as_written nd t) [[4, 1], [1, 3]] [1, 2] [0, 0]) = 5"
  "its (start (as_written nd t) [[4, 1], [1, 3]] [1, 2] [0, 0]) = 0"
  by (simp_all add: derived_defs start_fields dotl_def axpyl_def matvec_def)

lemma scenario_2_omega:
  "omega_of DBL_MIN [[4, 1], [1, 3]] (start (as_written nd DBL_MIN) [[4, 1], [1, 3]] [1, 2] [0, 0]) = 3 / 10"
  by (simp add: omega_of_def scenario_2_start matvec_def dotl_def IsZero_DBL_MIN)

lemma scenario_2_first_pass:
  "iteration (as_written nd DBL_MIN) [[4, 1], [1, 3]]
     (start (as_written nd DBL_MIN) [[4, 1], [1, 3]] [1, 2] [0, 0])
   = Inr (Continue, redirected (as_written nd DBL_MIN) [[4, 1], [1, 3]]
       (start (as_written nd DBL_MIN) [[4, 1], [1, 3]] [1, 2] [0, 0]))"
  by (simp add: iteration_eq scenario_2_omega scenario_2_start IsZero_DBL_MIN)

lemma scenario_2_x1:
  "mem (redirected (as_written nd DBL_MIN) [[4, 1], [1, 3]]
     (start (as_written nd DBL_MIN) [[4, 1], [1, 3]] [1, 2] [0, 0])) V_x = [1 / 10, 23 / 40]"
  by (simp add: redirected_def updated_def x_of_def scenario_2_omega alpha_of_def scenario_2_start
      start_fields axpyl_def matvec_def dotl_def)

subsection \<open>Runs of builds that agree except on one buffer\<close>

lemma erase_fields [simp]:
  "rTh (erase v \<sigma>) = rTh \<sigma>" "rTr (erase v \<sigma>) = rTr \<sigma>" "its (erase v \<sigma>) = its \<sigma>"
  "omega (erase v \<sigma>) = omega \<sigma>" "n_mult (erase v \<sigma>) = n_mult \<sigma>"
  "w \<noteq> v \<Longrightarrow> mem (erase v \<sigma>) w = mem \<sigma> w"
  by (simp_all add: erase_def)

lemma erase_eqD:
  assumes "erase v \<sigma> = erase v \<sigma>'"
  shows "rTh \<sigma> = rTh \<sigma>'" "rTr \<sigma> = rTr \<sigma>'" "its \<sigma> = its \<sigma>'" "omega \<sigma> = omega \<sigma>'"
    "n_mult \<sigma> = n_mult \<sigma>'" "state_T.more \<sigma> = state_T.more \<sigma>'" "\<And>w. w \<noteq> v \<Longrightarrow> mem \<sigma> w = mem \<sigma>' w"
proof -
  from assms have e: "f (erase v \<sigma>) = f (erase v \<sigma>')" for f :: "state \<Rightarrow> 'b"
    by simp
  from e [of rTh] show "rTh \<sigma> = rTh \<sigma>'" by simp
  from e [of rTr] show "rTr \<sigma> = rTr \<sigma>'" by simp
  from e [of its] show "its \<sigma> = its \<sigma>'" by simp
  from e [of omega] show "omega \<sigma> = omega \<sigma>'" by simp
  from e [of n_mult] show "n_mult \<sigma> = n_mult \<sigma>'" by simp
  from e [of state_T.more] show "state_T.more \<sigma> = state_T.more \<sigma>'" by (simp add: erase_def)
  show "mem \<sigma> w = mem \<sigma>' w" if "w \<noteq> v" for w
    using e [of "\<lambda>\<sigma>. mem \<sigma> w"] that by simp
qed

lemma erase_eqI:
  assumes "rTh \<sigma> = rTh \<sigma>'" "rTr \<sigma> = rTr \<sigma>'" "its \<sigma> = its \<sigma>'" "omega \<sigma> = omega \<sigma>'"
    "n_mult \<sigma> = n_mult \<sigma>'" "state_T.more \<sigma> = state_T.more \<sigma>'" "\<And>w. w \<noteq> v \<Longrightarrow> mem \<sigma> w = mem \<sigma>' w"
  shows "erase v \<sigma> = erase v \<sigma>'"
  using assms by (intro state_T.equality) (auto simp: erase_def fun_eq_iff)

lemma derived_agree:
  assumes e: "erase v \<sigma> = erase v \<sigma>'" and v: "v = V_u \<or> v = V_s"
  shows "rTAd_of A \<sigma> = rTAd_of A \<sigma>'" "alpha_of A \<sigma> = alpha_of A \<sigma>'" "s_of A \<sigma> = s_of A \<sigma>'"
    "omega_of t A \<sigma> = omega_of t A \<sigma>'" "r_of t A \<sigma> = r_of t A \<sigma>'" "x_of t A \<sigma> = x_of t A \<sigma>'"
    "h_of t A \<sigma> = h_of t A \<sigma>'" "beta_of t A \<sigma> = beta_of t A \<sigma>'" "d_of t A \<sigma> = d_of t A \<sigma>'"
proof -
  from v have m: "mem \<sigma> V_rT = mem \<sigma>' V_rT" "mem \<sigma> V_d = mem \<sigma>' V_d" "mem \<sigma> V_h = mem \<sigma>' V_h"
    "mem \<sigma> V_r = mem \<sigma>' V_r" "mem \<sigma> V_x = mem \<sigma>' V_x"
    by (auto intro!: erase_eqD(7) [OF e])
  note s = erase_eqD(1) [OF e]
  show 1: "rTAd_of A \<sigma> = rTAd_of A \<sigma>'" by (simp add: rTAd_of_def m)
  show 2: "alpha_of A \<sigma> = alpha_of A \<sigma>'" by (simp add: alpha_of_def 1 s)
  show 3: "s_of A \<sigma> = s_of A \<sigma>'" by (simp add: s_of_def 2 m)
  show 4: "omega_of t A \<sigma> = omega_of t A \<sigma>'" by (simp add: omega_of_def 3)
  show 5: "r_of t A \<sigma> = r_of t A \<sigma>'" by (simp add: r_of_def 2 3 4 m)
  show 6: "x_of t A \<sigma> = x_of t A \<sigma>'" by (simp add: x_of_def 2 3 4 m)
  show 7: "h_of t A \<sigma> = h_of t A \<sigma>'" by (simp add: h_of_def 3 4)
  show 8: "beta_of t A \<sigma> = beta_of t A \<sigma>'" by (simp add: beta_of_def 2 4 7 m s)
  show "d_of t A \<sigma> = d_of t A \<sigma>'" by (simp add: d_of_def 4 7 8 m)
qed

lemma updated_agree:
  assumes e: "erase v \<sigma> = erase v \<sigma>'" and B: "agree_except v B B'"
  shows "erase v (updated B A \<sigma>) = erase v (updated B' A \<sigma>')"
proof -
  from B have v: "v = V_u \<or> v = V_s" and t: "tiny B' = tiny B"
    by (auto simp: agree_except_def)
  note d = derived_agree [OF e v]
  note s = erase_eqD [OF e]
  have u: "u_of B A \<sigma> = u_of B' A \<sigma>'" if "v = V_s"
    using that B s(7) [of V_u] by (simp add: u_of_def d agree_except_def)
  have sv: "(if s_ref B = V_s then s_of A \<sigma> else mem \<sigma> V_s)
      = (if s_ref B' = V_s then s_of A \<sigma>' else mem \<sigma>' V_s)" if "v = V_u"
    using that B s(7) [of V_s] by (simp add: d agree_except_def)
  from v have m: "mem \<sigma> V_d = mem \<sigma>' V_d"
    by (auto intro!: s(7))
  show ?thesis
  proof (rule erase_eqI)
    fix w assume "w \<noteq> v"
    with v u sv s(7) [of w] show "mem (updated B A \<sigma>) w = mem (updated B' A \<sigma>') w"
      by (cases w) (auto simp: updated_def d t m)
  qed (simp_all add: updated_def s d t)
qed

lemma redirected_agree:
  assumes e: "erase v \<sigma> = erase v \<sigma>'" and B: "agree_except v B B'"
  shows "erase v (redirected B A \<sigma>) = erase v (redirected B' A \<sigma>')"
proof -
  from B have v: "v = V_u \<or> v = V_s" and t: "tiny B' = tiny B"
    by (auto simp: agree_except_def)
  note d = derived_agree [OF e v]
  note s = erase_eqD [OF e]
  note u = erase_eqD [OF updated_agree [OF e B, of A]]
  from v have m: "mem \<sigma> V_rT = mem \<sigma>' V_rT"
    by (auto intro!: s(7))
  show ?thesis
  proof (rule erase_eqI)
    fix w assume "w \<noteq> v"
    with u(7) [of w] show "mem (redirected B A \<sigma>) w = mem (redirected B' A \<sigma>') w"
      by (simp add: redirected_def d t)
  qed (simp_all add: redirected_def u s d t m)
qed

lemma iteration_agree:
  assumes e: "erase v \<sigma> = erase v \<sigma>'" and B: "agree_except v B B'"
  shows "map_sum id (apsnd (erase v)) (iteration B A \<sigma>)
       = map_sum id (apsnd (erase v)) (iteration B' A \<sigma>')"
proof -
  from B have v: "v = V_u \<or> v = V_s" and t: "tiny B' = tiny B" "ndebug B' = ndebug B"
    and sref: "s_ref B = V_h \<or> s_ref B = V_s" "s_ref B' = V_h \<or> s_ref B' = V_s"
    by (auto simp: agree_except_def)
  note d = derived_agree [OF e v]
  note s = erase_eqD [OF e]
  show ?thesis
    unfolding iteration_eq [OF sref(1)] iteration_eq [OF sref(2)]
    by (simp add: d t s(1) updated_agree [OF e B] redirected_agree [OF e B])
qed

lemma loop_agree:
  assumes B: "agree_except v B B'"
  shows "erase v \<sigma> = erase v \<sigma>' \<Longrightarrow>
    map_sum id (erase v) (loop B A err mx \<sigma>) = map_sum id (erase v) (loop B' A err mx \<sigma>')"
proof (induction C \<equiv> real_ops B0 \<equiv> B A0 \<equiv> A err0 \<equiv> err mx0 \<equiv> mx \<sigma> arbitrary: \<sigma>' rule: loop_T.induct)
  case (1 \<sigma>)
  note e = \<open>erase v \<sigma> = erase v \<sigma>'\<close>
  note s = erase_eqD [OF e]
  show ?case
  proof (cases "err < rTr \<sigma> \<and> its \<sigma> < mx")
    case False
    then have "\<not> (err < rTr \<sigma>' \<and> its \<sigma>' < mx)" by (simp add: s)
    with False e show ?thesis by (simp add: loop_stop)
  next
    case True
    then have c: "err < rTr \<sigma>" "its \<sigma> < mx" and c': "err < rTr \<sigma>'" "its \<sigma>' < mx"
      by (simp_all add: s)
    note it = iteration_agree [OF e B, of A]
    show ?thesis
    proof (cases "iteration B A \<sigma>")
      case (Inl x)
      with it have "iteration B' A \<sigma>' = Inl x"
        by (cases "iteration B' A \<sigma>'") simp_all
      with Inl c c' show ?thesis by (simp add: loop_error)
    next
      case (Inr p)
      obtain fl \<tau> where p: "p = (fl, \<tau>)" by (cases p)
      from it Inr p obtain \<tau>' where it': "iteration B' A \<sigma>' = Inr (fl, \<tau>')"
        and e': "erase v \<tau> = erase v \<tau>'"
        by (cases "iteration B' A \<sigma>'") auto
      show ?thesis
      proof (cases fl)
        case Break
        with Inr p it' c c' e' show ?thesis by (simp add: loop_break)
      next
        case Continue
        from "1.hyps" [unfolded real_ops_simps, OF True Inr p [symmetric] Continue e']
        have "map_sum id (erase v) (loop B A err mx \<tau>) = map_sum id (erase v) (loop B' A err mx \<tau>')" .
        with Inr p it' c c' Continue show ?thesis by (simp add: loop_continue)
      qed
    qed
  qed
qed

lemma start_mem:
  assumes "s_ref B = V_h \<or> s_ref B = V_s"
  shows "mem (start B A b x) w =
    (case w of V_b \<Rightarrow> b | V_x \<Rightarrow> x
     | V_s \<Rightarrow> if s_ref B = V_s then replicate (unat (of_nat (length A) :: 32 word)) 0 else []
     | V_u \<Rightarrow> replicate (unat (of_nat (length A) :: 32 word)) 0
     | V_Ad \<Rightarrow> replicate (unat (of_nat (length A) :: 32 word)) 0
     | V_t \<Rightarrow> replicate (unat (of_nat (length A) :: 32 word)) 0
     | _ \<Rightarrow> axpyl (- 1) b (matvec A x))"
  using assms
  by (cases w) (auto simp: start_def first_scalars_def Let_def init_def blas_defs entry_def)

lemma start_agree:
  assumes B: "agree_except v B B'"
  shows "erase v (start B A b x) = erase v (start B' A b x)"
proof -
  from B have v: "v = V_u \<or> v = V_s"
    and sref: "s_ref B = V_h \<or> s_ref B = V_s" "s_ref B' = V_h \<or> s_ref B' = V_s"
    by (auto simp: agree_except_def)
  show ?thesis
  proof (rule erase_eqI)
    fix w assume "w \<noteq> v"
    with B show "mem (start B A b x) w = mem (start B' A b x) w"
      by (cases w) (auto simp: start_mem [OF sref(1)] start_mem [OF sref(2)] agree_except_def)
  qed (simp_all add: start_fields [OF sref(1)] start_fields [OF sref(2)])
qed

lemma observe_run_loop:
  assumes "v = V_u \<or> v = V_s"
  shows "observe (run_loop B A err mx \<sigma>)
    = map_sum id (\<lambda>\<tau>. (rTr \<tau> \<le> err, mem \<tau> V_x, its \<tau>)) (map_sum id (erase v) (loop B A err mx \<sigma>))"
  using assms
  by (cases "loop B A err mx \<sigma>") (auto simp: observe_def run_loop_def finish_def)

lemma solve_agree:
  assumes B: "agree_except v B B'"
  shows "observe (solve B S A b x) = observe (solve B' S A b x)"
proof (cases "length A = length b \<and> length A = length x \<and> 0 < length A")
  case False
  then show ?thesis by (auto simp: solve_def)
next
  case True
  then have val: "length A = length b" "length A = length x" "0 < length A"
    by blast+
  from B have v: "v = V_u \<or> v = V_s" and nd: "ndebug B' = ndebug B" and t: "tiny B' = tiny B"
    and sref: "s_ref B = V_h \<or> s_ref B = V_s" "s_ref B' = V_h \<or> s_ref B' = V_s"
    by (auto simp: agree_except_def)
  have "map_sum id (erase v) (loop B A err mx (start B A b x))
      = map_sum id (erase v) (loop B' A err mx (start B' A b x))" for err mx
    by (rule loop_agree [OF B start_agree [OF B]])
  then have "observe (run_loop B A err mx (start B A b x))
      = observe (run_loop B' A err mx (start B' A b x))" for err mx
    by (simp only: observe_run_loop [OF v])
  then show ?thesis
    unfolding solve_valid [OF val] first_assert_value [OF sref(1)] first_assert_value [OF sref(2)]
    by (simp add: nd t)
qed

subsection \<open>The arithmetic of \<open>double\<close> on numbers of the format\<close>

lemma p2_pos [simp]: "0 < p2 e"
  by (simp add: p2_def zero_less_power_int)

lemma p2_nonneg [simp]: "0 \<le> p2 e"
  using p2_pos [of e] by (simp only: less_imp_le)

lemma p2_nonzero [simp]: "p2 e \<noteq> 0"
  by (metis p2_pos less_irrefl)

lemma p2_not_neg [simp]: "\<not> p2 e < 0" "\<not> p2 e \<le> 0"
  using p2_pos [of e] by (simp_all only: not_less not_le less_imp_le)

lemma p2_0 [simp]: "p2 0 = 1"
  by (simp add: p2_def)

lemma p2_mult [simp]: "p2 a * p2 b = p2 (a + b)"
  by (simp add: p2_def power_int_add)

lemma p2_div [simp]: "p2 a / p2 b = p2 (a - b)"
  by (simp add: p2_def power_int_diff)

lemma p2_less [simp]: "p2 a < p2 b \<longleftrightarrow> a < b"
  unfolding p2_def
  by (metis linorder_not_less not_less_iff_gr_or_eq one_less_numeral_iff power_int_strict_increasing semiring_norm(76))

lemma p2_le [simp]: "p2 a \<le> p2 b \<longleftrightarrow> a \<le> b"
  by (metis p2_less linorder_not_less)

lemma p2_eq [simp]: "p2 a = p2 b \<longleftrightarrow> a = b"
  by (metis p2_less less_irrefl linorder_neqE_linordered_idom order_less_irrefl)

lemma p2_nat: "0 \<le> e \<Longrightarrow> p2 e = of_int (2 ^ nat e)"
  by (simp add: p2_def power_int_nonneg_exp)

lemma p2_powr: "2 powr real_of_int e = p2 e"
  by (simp add: p2_def powr_real_of_int')

lemma floor_log2_eqI:
  assumes "p2 e \<le> m" "m < p2 (e + 1)"
  shows "\<lfloor>log 2 m\<rfloor> = e"
proof -
  have pos: "0 < m" using p2_pos [of e] assms(1) by (rule less_le_trans)
  have two: "(1::real) < 2" by simp
  have "2 powr real_of_int e \<le> m \<and> m < 2 powr real_of_int (e + 1)"
    using assms by (simp only: p2_powr)
  then show ?thesis
    by (rule floor_log_eq_powr_iff [OF pos two, THEN iffD2])
qed

lemma floor_log2_bounds:
  assumes "0 < m"
  shows "p2 \<lfloor>log 2 m\<rfloor> \<le> m" "m < p2 (\<lfloor>log 2 m\<rfloor> + 1)"
proof -
  have two: "(1::real) < 2" by simp
  have "2 powr real_of_int \<lfloor>log 2 m\<rfloor> \<le> m \<and> m < 2 powr real_of_int (\<lfloor>log 2 m\<rfloor> + 1)"
    by (rule floor_log_eq_powr_iff [OF assms two, THEN iffD1]) (rule refl)
  then show "p2 \<lfloor>log 2 m\<rfloor> \<le> m" "m < p2 (\<lfloor>log 2 m\<rfloor> + 1)"
    by (simp_all only: p2_powr)
qed

lemma floor_log_p2: "\<lfloor>log 2 (p2 e)\<rfloor> = e"
  by (rule floor_log2_eqI) simp_all

lemma round_half_even_int [simp]: "round_half_even (of_int k) = k"
  by (simp add: round_half_even_def)

lemma round_half_even_small:
  assumes "0 \<le> y" "y < 1 / 2"
  shows "round_half_even y = 0"
proof -
  from assms have "\<lfloor>y\<rfloor> = 0" by (simp add: floor_eq_iff)
  with assms show ?thesis by (simp add: round_half_even_def)
qed

lemma round_mag_exact:
  assumes k: "0 < k" "k < 2 ^ 53" and e: "- 1074 \<le> e"
  shows "round_mag (of_int k * p2 e) = of_int k * p2 e"
proof -
  define m where "m = of_int k * p2 e"
  define E where "E = \<lfloor>log 2 m\<rfloor>"
  define q where "q = max E (- 1022) - 52"
  have pos: "0 < m" using k(1) by (simp add: m_def)
  have "p2 E \<le> m" unfolding E_def by (rule floor_log2_bounds [OF pos])
  also have "m < of_int (2 ^ 53) * p2 e"
    unfolding m_def using k(2) by (intro mult_strict_right_mono) simp_all
  also have "of_int (2 ^ 53) * p2 e = p2 53 * p2 e"
    by (simp add: p2_def)
  also have "\<dots> = p2 (53 + e)" by simp
  finally have "E < 53 + e" by simp
  with e have n: "0 \<le> e - q" by (simp add: q_def)
  define K :: int where "K = k * 2 ^ nat (e - q)"
  have "p2 (e - q) = of_int (2 ^ nat (e - q))" using n by (rule p2_nat)
  then have kq: "of_int k * p2 (e - q) = of_int K" by (simp add: K_def)
  have "m / p2 q = of_int k * (p2 e / p2 q)" by (simp only: m_def times_divide_eq_right)
  also have "\<dots> = of_int K" by (simp only: p2_div kq)
  finally have "of_int (round_half_even (m / p2 q)) * p2 q = of_int K * p2 q"
    by (simp only: round_half_even_int)
  also have "\<dots> = of_int k * (p2 (e - q) * p2 q)"
    by (simp only: kq [symmetric] mult.assoc)
  also have "\<dots> = m" by (simp add: m_def)
  finally have "round_mag m = m"
    by (simp add: round_mag_def Let_def E_def [symmetric] q_def [symmetric])
  then show ?thesis by (simp only: m_def)
qed

lemma fround_0 [simp]: "fround s 0 = Finite s 0"
  by (simp add: fround_def)

lemma fround_exact:
  assumes "0 < k" "k < 2 ^ 53" "- 1074 \<le> e" "of_int k * p2 e < p2 1024"
  shows "fround s (of_int k * p2 e) = Finite s (of_int k * p2 e)"
  using assms by (simp add: fround_def round_mag_exact not_le)

lemma fround_p2: "- 1074 \<le> e \<Longrightarrow> fround s (p2 e) = (if 1024 \<le> e then Infinity s else Finite s (p2 e))"
  using round_mag_exact [of 1 e] by (simp add: fround_def)

lemma fround_p2_underflow:
  assumes "e < - 1075"
  shows "fround s (p2 e) = Finite s 0"
proof -
  have m: "max e (- 1022) = - 1022" using assms by simp
  have "p2 (e + 1074) \<le> p2 (- 2)" using assms by simp
  also have "p2 (- 2) < 1 / 2" by (simp add: p2_def)
  finally have "round_half_even (p2 (e + 1074)) = 0"
    by (intro round_half_even_small) simp_all
  then have "round_mag (p2 e) = 0"
    by (simp add: round_mag_def floor_log_p2 m Let_def)
  then show ?thesis
    by (simp add: fround_def not_le)
qed

lemma fround_ten_min: "fround s (10 * p2 (- 1022)) = Finite s (10 * p2 (- 1022))"
proof -
  have "10 * p2 (- 1022) < 10 * p2 1020" by simp
  also have "\<dots> \<le> 16 * p2 1020" by simp
  also have "16 * p2 1020 = p2 4 * p2 1020" by (simp add: p2_def)
  also have "\<dots> = p2 1024" by simp
  finally have "of_int 10 * p2 (- 1022) < p2 1024" by simp
  with fround_exact [of 10 "- 1022" s] show ?thesis by simp
qed

lemma fround_ties_to_even:
  "fround False (p2 53 + 1) = Finite False (p2 53)"
  "fround False (p2 53 + 3) = Finite False (p2 53 + 4)"
proof -
  have p53: "p2 53 = 9007199254740992" and p54: "p2 54 = 18014398509481984"
    and p1: "p2 1 = 2" and p1024: "p2 53 + 4 < p2 1024"
    by (simp_all add: p2_def)
  have e1: "\<lfloor>log 2 (p2 53 + 1)\<rfloor> = 53" and e3: "\<lfloor>log 2 (p2 53 + 3)\<rfloor> = 53"
    by (rule floor_log2_eqI; simp add: p53 p54)+
  have f1: "\<lfloor>(9007199254740993 :: real) / 2\<rfloor> = 4503599627370496"
    and f3: "\<lfloor>(9007199254740995 :: real) / 2\<rfloor> = 4503599627370497"
    by (simp_all add: floor_eq_iff)
  have e1': "\<lfloor>log 2 (9007199254740993 :: real)\<rfloor> = 53"
    and e3': "\<lfloor>log 2 (9007199254740995 :: real)\<rfloor> = 53"
    using e1 e3 by (simp_all add: p53)
  have "round_mag (p2 53 + 1) = p2 53"
    by (simp add: round_mag_def Let_def p53 e1' p1 round_half_even_def f1)
  moreover have "round_mag (p2 53 + 3) = p2 53 + 4"
    by (simp add: round_mag_def Let_def p53 e3' p1 round_half_even_def f3)
  ultimately show "fround False (p2 53 + 1) = Finite False (p2 53)"
    "fround False (p2 53 + 3) = Finite False (p2 53 + 4)"
    using p1024 add_pos_pos [OF p2_pos [of 53], of 1] add_pos_pos [OF p2_pos [of 53], of 3]
    by (simp_all add: fround_def not_le)
qed

lemma p2_less_ten_min [simp]: "p2 e < 10 * p2 (- 1022) \<longleftrightarrow> e \<le> - 1019"
proof -
  have "p2 3 = 8" "p2 4 = 16"
    by (simp_all add: p2_def)
  then have "p2 3 * p2 (- 1022) = 8 * p2 (- 1022)" "p2 4 * p2 (- 1022) = 16 * p2 (- 1022)"
    by (simp_all only:)
  then have a: "p2 (- 1019) = 8 * p2 (- 1022)" "p2 (- 1018) = 16 * p2 (- 1022)"
    by simp_all
  show ?thesis
  proof
    assume l: "p2 e < 10 * p2 (- 1022)"
    have "10 * p2 (- 1022) < p2 (- 1018)" by (simp only: a) simp
    with l have "p2 e < p2 (- 1018)" by (rule less_trans)
    then show "e \<le> - 1019" by simp
  next
    assume "e \<le> - 1019"
    then have "p2 e \<le> p2 (- 1019)" by simp
    also have "p2 (- 1019) < 10 * p2 (- 1022)" by (simp only: a) simp
    finally show "p2 e < 10 * p2 (- 1022)" .
  qed
qed

lemma double_ops_simps:
  "c_zero double_ops = Finite False 0" "c_one double_ops = Finite False 1"
  "c_ten double_ops = Finite False 10" "c_neg double_ops = d_neg" "c_add double_ops = d_add"
  "c_mul double_ops = d_mul" "c_div double_ops = d_div" "c_fabs double_ops = d_fabs"
  "c_less double_ops = d_less" "c_less_eq double_ops = d_less_eq"
  "c_no_quotient double_ops = (\<lambda>d. False)"
  by (simp_all add: double_ops_def)

text \<open>
  The rules that evaluate a run of \<open>solve_T double_ops\<close> on powers of two; the bound value of
  a \<open>let\<close> is evaluated before the body is entered.
\<close>

lemmas double_run_simps = solve_T_def Let_def init_T_def first_scalars_T_def run_loop_T_def
  loop_T.simps iteration_T_def entry_T_def finish_T_def target_T_def effective_max_iter_def
  IsZero_T_def dotl_T_def axpyl_T_def matvec_T_def copy_def scal_T_def axpy_T_def dot_T_def
  mult_T_def new_vector_T_def double_ops_simps DBL_MIN_double_def pow2_def signed_def
  set_epsilon_def Solver_BICGSTAB_double_def fround_p2 fround_ten_min fround_p2_underflow

subsection \<open>The identity system with a right-hand side of ones\<close>










section \<open>Claims\<close>

subsection \<open>C1: the residual contract\<close>

text \<open>
  Claim C1 as stated fails for \<open>CoeffType = double\<close>. On \<open>A = [[1]]\<close>, \<open>b = [2^600]\<close>,
  \<open>x = [0]\<close> with the tolerance \<open>2^-10\<close>, the products \<open>(b, b)\<close> and \<open>(r, r)\<close> overflow: \<open>err\<close>
  and \<open>rTr\<close> are both \<open>+\<infinity>\<close>, the loop is not entered, \<open>rTr <= err\<close> holds and \<open>solve\<close> returns
  true with \<open>x = [0]\<close>. The residue of that \<open>x\<close>, recomputed exactly, has the square \<open>2^1200\<close>,
  above \<open>\<epsilon>\<^sup>2 (b, b) = 2^1180\<close>.
\<close>

theorem residual_contract_counterexample:
  "observe (solve_T double_ops (as_written False DBL_MIN_double)
      (set_epsilon (pow2 (- 10)) Solver_BICGSTAB_double) [[pow2 0]] [pow2 600] [Finite False 0])
     = Inr (True, [Finite False 0], 0)
   \<and> reported (solve_T double_ops (as_written False DBL_MIN_double)
      (set_epsilon (pow2 (- 10)) Solver_BICGSTAB_double) [[pow2 0]] [pow2 600] [Finite False 0])
     = Inr (Infinity False, None, Infinity False)
   \<and> \<not> dotl (residual [[1]] [0] [p2 600]) (residual [[1]] [0] [p2 600])
        \<le> p2 (- 10) * p2 (- 10) * dotl [p2 600] [p2 600]"
proof (intro conjI)
  show "observe (solve_T double_ops (as_written False DBL_MIN_double)
      (set_epsilon (pow2 (- 10)) Solver_BICGSTAB_double) [[pow2 0]] [pow2 600] [Finite False 0])
     = Inr (True, [Finite False 0], 0)"
    by (simp add: double_run_simps observe_def cong: let_weak_cong)
  show "reported (solve_T double_ops (as_written False DBL_MIN_double)
      (set_epsilon (pow2 (- 10)) Solver_BICGSTAB_double) [[pow2 0]] [pow2 600] [Finite False 0])
     = Inr (Infinity False, None, Infinity False)"
    by (simp add: double_run_simps reported_def cong: let_weak_cong)
  show "\<not> dotl (residual [[1]] [0] [p2 600]) (residual [[1]] [0] [p2 600])
        \<le> p2 (- 10) * p2 (- 10) * dotl [p2 600] [p2 600]"
    by (simp add: residual_def matvec_def dotl_def)
qed

text \<open>
  Claim C1, amended. In exact arithmetic (\<open>CoeffType = real\<close>): whenever \<open>solve(A, b, x)\<close>
  returns true, the final \<open>x\<close> satisfies \<open>\<parallel>A x - b\<parallel>\<^sup>2 \<le> \<epsilon>\<^sup>2 \<parallel>b\<parallel>\<^sup>2\<close>, the residue being recomputed
  from \<open>A\<close>, the final \<open>x\<close> and \<open>b\<close> (not read from the solver's \<open>r\<close> or \<open>rTr\<close>).
\<close>

theorem residual_contract:
  assumes run: "solve (as_written nd t) S A b x = Inr out"
    and ok: "success out"
  shows "dotl (residual A (mem (final out) V_x) b) (residual A (mem (final out) V_x) b)
    \<le> m_epsilon S * m_epsilon S * dotl b b"
proof -
  let ?B = "as_written nd t"
  let ?err = "m_epsilon S * m_epsilon S * dotl b b"
  have sref: "s_ref ?B = V_h \<or> s_ref ?B = V_s" by simp
  have v: "length A = length b" "length A = length x" "0 < length A"
    using run ok by (auto simp: solve_def split: if_splits)
  from solve_Inr_valid [OF v run]
  have l: "loop ?B A ?err (effective_max_iter S (of_nat (length A))) (start ?B A b x) = Inr (final out)"
    and flag: "success out = (rTr (final out) \<le> ?err)"
    by blast+
  from l residual_inv_start [OF sref v(1,2)]
  have "residual_inv A b (final out)"
    by (rule loop_rule [where P = "residual_inv A b"]) (auto intro: residual_inv_step [OF sref])
  then have "rTr (final out)
      = dotl (residual A (mem (final out) V_x) b) (residual A (mem (final out) V_x) b)"
    by (simp add: residual_inv_def)
  with flag ok show ?thesis by simp
qed

theorem residual_contract_witness:
  "\<exists>out. solve (as_written False DBL_MIN) (set_epsilon (1 / 10 ^ 6) Solver_BICGSTAB) [[2]] [4] [0] = Inr out
     \<and> success out \<and> mem (final out) V_x = [2]
     \<and> dotl (residual [[2]] [2] [4]) (residual [[2]] [2] [4]) \<le> 1 / 10 ^ 6 * (1 / 10 ^ 6) * dotl [4] [4]"
proof -
  from scenario_1 obtain out where
    run: "solve (as_written False DBL_MIN) (set_epsilon (1 / 10 ^ 6) Solver_BICGSTAB) [[2]] [4] [0] = Inr out"
    and ok: "success out" and x: "mem (final out) V_x = [2]" by blast
  from residual_contract [OF run ok] run ok x show ?thesis
    by (auto simp: set_epsilon_def Solver_BICGSTAB_def)
qed

subsection \<open>C2: the value returned\<close>

text \<open>
  Claim C2. On every run of \<open>solve\<close> that passes the input validation and returns, the
  boolean returned is \<open>rTr \<le> err\<close> at the exit of the loop, whichever way the loop was
  left (failed test, \<open>break\<close> or cap): \<open>err\<close> is \<open>\<epsilon>\<^sup>2 * (b, b)\<close>, fixed at entry, and \<open>rTr\<close>
  is \<open>(r, r)\<close> for the residue \<open>r\<close> in the exit state.
\<close>

theorem returned_flag_is_residual_test:
  assumes "length A = length b" "length A = length x" "0 < length A"
    and "solve (as_written nd t) S A b x = Inr out"
  shows "success out = (rTr (final out) \<le> m_epsilon S * m_epsilon S * dotl b b)
    \<and> rTr (final out) = dotl (mem (final out) V_r) (mem (final out) V_r)
    \<and> loop (as_written nd t) A (m_epsilon S * m_epsilon S * dotl b b)
         (effective_max_iter S (of_nat (length A))) (start (as_written nd t) A b x) = Inr (final out)"
proof -
  let ?B = "as_written nd t"
  have sref: "s_ref ?B = V_h \<or> s_ref ?B = V_s" by simp
  from solve_Inr_valid [OF assms]
  have run: "loop ?B A (m_epsilon S * m_epsilon S * dotl b b)
        (effective_max_iter S (of_nat (length A))) (start ?B A b x) = Inr (final out)"
    and flag: "success out = (rTr (final out) \<le> m_epsilon S * m_epsilon S * dotl b b)"
    by simp_all
  have "rTr (start ?B A b x) = dotl (mem (start ?B A b x) V_r) (mem (start ?B A b x) V_r)"
    by (simp add: start_fields [OF sref])
  with run have "rTr (final out) = dotl (mem (final out) V_r) (mem (final out) V_r)"
    by (rule loop_rule [where P = "\<lambda>\<sigma>. rTr \<sigma> = dotl (mem \<sigma> V_r) (mem \<sigma> V_r)"])
      (auto dest: iteration_rTr [OF sref])
  with run flag show ?thesis by simp
qed

theorem returned_flag_is_residual_test_witness:
  "\<exists>out. solve (as_written False DBL_MIN) (set_epsilon (1 / 10 ^ 6) Solver_BICGSTAB) [[2]] [4] [0] = Inr out
     \<and> success out
     \<and> success out = (rTr (final out) \<le> 1 / 10 ^ 6 * (1 / 10 ^ 6) * dotl [4] [4])
     \<and> rTr (final out) = dotl (mem (final out) V_r) (mem (final out) V_r)"
proof -
  from scenario_1 obtain out where
    run: "solve (as_written False DBL_MIN) (set_epsilon (1 / 10 ^ 6) Solver_BICGSTAB) [[2]] [4] [0] = Inr out"
    and ok: "success out" by blast
  have "length [[2::real]] = length [4::real]" "length [[2::real]] = length [0::real]" "0 < length [[2::real]]"
    by simp_all
  from returned_flag_is_residual_test [OF this run] run ok show ?thesis
    by (auto simp: set_epsilon_def Solver_BICGSTAB_def)
qed

subsection \<open>C3: near-zero \<open>\<omega>\<close>, \<open>rTh\<close> or \<open>tt\<close>\<close>

text \<open>
  Claim C3 as stated fails twice. On scenario 1 of the specification, in the first pass of
  the body \<open>tt = (t, t)\<close> is zero, \<open>\<omega>\<close> is set to 0 and the loop is left by the \<open>break\<close> of line
  168, yet \<open>solve\<close> returns true (with \<open>x = [2]\<close>, the solution), not false. And for
  \<open>CoeffType = double\<close>, on \<open>A = [[2^-1020]]\<close>, \<open>b = [16]\<close>, \<open>x = [0]\<close> with the tolerance
  \<open>2^-10\<close>, the first pass computes \<open>\<alpha> = 2^1020\<close> and \<open>tt = 0\<close>, sets \<open>\<omega>\<close> to 0, overflows in
  \<open>x \<leftarrow> x - \<alpha> d\<close> (line 161) and breaks: \<open>solve\<close> returns true with \<open>x = [+\<infinity>]\<close>.
\<close>

theorem breakdown_counterexample:
  "IsZero DBL_MIN
     (dotl (matvec [[2]] (s_of [[2]] (start (as_written False DBL_MIN) [[2]] [4] [0])))
           (matvec [[2]] (s_of [[2]] (start (as_written False DBL_MIN) [[2]] [4] [0]))))
   \<and> IsZero DBL_MIN (omega_of DBL_MIN [[2]] (start (as_written False DBL_MIN) [[2]] [4] [0]))
   \<and> observe (solve (as_written False DBL_MIN) (set_epsilon (1 / 10 ^ 6) Solver_BICGSTAB) [[2]] [4] [0])
       = Inr (True, [2], 0)
   \<and> observe (solve_T double_ops (as_written False DBL_MIN_double)
        (set_epsilon (pow2 (- 10)) Solver_BICGSTAB_double) [[pow2 (- 1020)]] [pow2 4] [Finite False 0])
       = Inr (True, [Infinity False], 0)
   \<and> reported (solve_T double_ops (as_written False DBL_MIN_double)
        (set_epsilon (pow2 (- 10)) Solver_BICGSTAB_double) [[pow2 (- 1020)]] [pow2 4] [Finite False 0])
       = Inr (Finite False 0, Some (Finite False 0), pow2 8)"
proof (intro conjI)
  show "IsZero DBL_MIN
     (dotl (matvec [[2]] (s_of [[2]] (start (as_written False DBL_MIN) [[2]] [4] [0])))
           (matvec [[2]] (s_of [[2]] (start (as_written False DBL_MIN) [[2]] [4] [0]))))"
    by (simp add: scenario_1_start matvec_def dotl_def IsZero_DBL_MIN_0)
  show "IsZero DBL_MIN (omega_of DBL_MIN [[2]] (start (as_written False DBL_MIN) [[2]] [4] [0]))"
    by (simp add: omega_of_def scenario_1_start matvec_def dotl_def IsZero_DBL_MIN_0)
  show "observe (solve (as_written False DBL_MIN) (set_epsilon (1 / 10 ^ 6) Solver_BICGSTAB) [[2]] [4] [0])
       = Inr (True, [2], 0)"
    by (rule observe_scenario_1)
  show "observe (solve_T double_ops (as_written False DBL_MIN_double)
        (set_epsilon (pow2 (- 10)) Solver_BICGSTAB_double) [[pow2 (- 1020)]] [pow2 4] [Finite False 0])
       = Inr (True, [Infinity False], 0)"
    by (simp add: double_run_simps observe_def cong: let_weak_cong)
  show "reported (solve_T double_ops (as_written False DBL_MIN_double)
        (set_epsilon (pow2 (- 10)) Solver_BICGSTAB_double) [[pow2 (- 1020)]] [pow2 4] [Finite False 0])
       = Inr (Finite False 0, Some (Finite False 0), pow2 8)"
    by (simp add: double_run_simps reported_def cong: let_weak_cong)
qed

text \<open>
  Claim C3, amended. In every pass of the body that gets past line 148: \<open>\<omega>\<close> is 0 when \<open>st\<close>
  or \<open>tt\<close> is near zero; the pass ends in a \<open>break\<close> exactly when \<open>\<omega>\<close>, or the \<open>rTh\<close> carried
  into the pass, is near zero; the \<open>break\<close> is taken after \<open>x\<close>, \<open>r\<close>, \<open>h\<close> and \<open>rTr\<close> have been
  updated (lines 161-166), with \<open>its\<close> unchanged and before the division of line 171, and
  \<open>solve\<close> then returns \<open>rTr \<le> err\<close> for that state: true when the residue already meets the
  target, false otherwise. Nothing is said about infinities and NaN in \<open>x\<close> or the scalars.
\<close>

theorem breakdown_breaks:
  assumes v: "length A = length b" "length A = length x" "0 < length A"
    and a: "nd \<or> \<not> IsZero t (dot V_rT V_rT (init (as_written nd t) A (of_nat (length A)) (entry b x)))"
    and h: "loop_head (as_written nd t) A (m_epsilon S * m_epsilon S * dotl b b)
              (effective_max_iter S (of_nat (length A))) k (start (as_written nd t) A b x) = Some \<sigma>"
    and c: "m_epsilon S * m_epsilon S * dotl b b < rTr \<sigma>" "its \<sigma> < effective_max_iter S (of_nat (length A))"
    and it: "iteration (as_written nd t) A \<sigma> = Inr (fl, \<tau>)"
  shows "omega \<tau> = Some (omega_of t A \<sigma>)
    \<and> (IsZero t (dotl (s_of A \<sigma>) (matvec A (s_of A \<sigma>)))
         \<or> IsZero t (dotl (matvec A (s_of A \<sigma>)) (matvec A (s_of A \<sigma>))) \<longrightarrow> omega_of t A \<sigma> = 0)
    \<and> (fl = Break \<longleftrightarrow> IsZero t (omega_of t A \<sigma>) \<or> IsZero t (rTh \<sigma>))
    \<and> (fl = Break \<longrightarrow>
          \<tau> = updated (as_written nd t) A \<sigma> \<and> its \<tau> = its \<sigma>
          \<and> solve (as_written nd t) S A b x
              = Inr \<lparr>success = (rTr \<tau> \<le> m_epsilon S * m_epsilon S * dotl b b), final = \<tau>\<rparr>)"
proof -
  let ?B = "as_written nd t"
  let ?err = "m_epsilon S * m_epsilon S * dotl b b"
  let ?mx = "effective_max_iter S (of_nat (length A))"
  have sref: "s_ref ?B = V_h \<or> s_ref ?B = V_s" by simp
  from it have cases:
    "(fl = Break \<and> \<tau> = updated ?B A \<sigma> \<and> (IsZero t (omega_of t A \<sigma>) \<or> IsZero t (rTh \<sigma>)))
     \<or> (fl = Continue \<and> \<tau> = redirected ?B A \<sigma> \<and> \<not> (IsZero t (omega_of t A \<sigma>) \<or> IsZero t (rTh \<sigma>)))"
    unfolding iteration_eq [OF sref] by (auto split: if_splits)
  have om: "omega \<tau> = Some (omega_of t A \<sigma>)"
    using cases by (auto simp: updated_def redirected_def)
  have zero: "IsZero t (dotl (s_of A \<sigma>) (matvec A (s_of A \<sigma>)))
         \<or> IsZero t (dotl (matvec A (s_of A \<sigma>)) (matvec A (s_of A \<sigma>))) \<longrightarrow> omega_of t A \<sigma> = 0"
    by (simp add: omega_of_def)
  have brk: "fl = Break \<longleftrightarrow> IsZero t (omega_of t A \<sigma>) \<or> IsZero t (rTh \<sigma>)"
    using cases by auto
  have ret: "\<tau> = updated ?B A \<sigma> \<and> its \<tau> = its \<sigma>
      \<and> solve ?B S A b x = Inr \<lparr>success = (rTr \<tau> \<le> ?err), final = \<tau>\<rparr>" if "fl = Break"
  proof -
    from that cases have u: "\<tau> = updated ?B A \<sigma>" by auto
    from that it have "loop ?B A ?err ?mx \<sigma> = Inr \<tau>"
      by (intro loop_break [OF c]) simp
    moreover from a have "solve ?B S A b x = run_loop ?B A ?err ?mx \<sigma>"
      by (intro solve_from_head [OF v _ h]) simp
    ultimately have "solve ?B S A b x = Inr \<lparr>success = (rTr \<tau> \<le> ?err), final = \<tau>\<rparr>"
      by (simp add: run_loop_def finish_def)
    with u show ?thesis by (simp add: updated_def)
  qed
  from om zero brk ret show ?thesis by blast
qed

theorem breakdown_breaks_witness:
  "observe (solve (as_written False DBL_MIN) Solver_BICGSTAB [[1, 1], [1, 0]] [1, 0] [0, 0])
     = Inr (False, [1, 0], 0)
   \<and> IsZero DBL_MIN (dotl (s_of [[1, 1], [1, 0]] (start (as_written False DBL_MIN) [[1, 1], [1, 0]] [1, 0] [0, 0]))
        (matvec [[1, 1], [1, 0]] (s_of [[1, 1], [1, 0]] (start (as_written False DBL_MIN) [[1, 1], [1, 0]] [1, 0] [0, 0]))))
   \<and> omega_of DBL_MIN [[1, 1], [1, 0]] (start (as_written False DBL_MIN) [[1, 1], [1, 0]] [1, 0] [0, 0]) = 0
   \<and> iteration (as_written False DBL_MIN) [[1, 1], [1, 0]]
        (start (as_written False DBL_MIN) [[1, 1], [1, 0]] [1, 0] [0, 0])
       = Inr (Break, updated (as_written False DBL_MIN) [[1, 1], [1, 0]]
                (start (as_written False DBL_MIN) [[1, 1], [1, 0]] [1, 0] [0, 0]))
   \<and> rTr (updated (as_written False DBL_MIN) [[1, 1], [1, 0]]
                (start (as_written False DBL_MIN) [[1, 1], [1, 0]] [1, 0] [0, 0])) = 1"
proof -
  let ?A = "[[1, 1], [1, 0 :: real]]"
  let ?B = "as_written False DBL_MIN"
  let ?\<sigma> = "start ?B ?A [1, 0] [0, 0]"
  let ?err = "m_epsilon Solver_BICGSTAB * m_epsilon Solver_BICGSTAB * dotl [1, 0] [1, 0]"
  let ?mx = "effective_max_iter Solver_BICGSTAB (of_nat (length ?A))"
  have v: "length ?A = length [1, 0 :: real]" "length ?A = length [0, 0 :: real]" "0 < length ?A"
    by simp_all
  have "dot V_rT V_rT (init ?B ?A (of_nat (length ?A)) (entry [1, 0] [0, 0])) = 1"
    unfolding first_assert_value [of ?B, simplified] by (simp add: dotl_def axpyl_def matvec_def)
  then have a: "False \<or> \<not> IsZero DBL_MIN (dot V_rT V_rT (init ?B ?A (of_nat (length ?A)) (entry [1, 0] [0, 0])))"
    by (simp only: IsZero_DBL_MIN) simp
  have h: "loop_head ?B ?A ?err ?mx 0 ?\<sigma> = Some ?\<sigma>"
    by simp
  have c: "?err < rTr ?\<sigma>" "its ?\<sigma> < ?mx"
    by (simp_all add: breakdown_run_start Solver_BICGSTAB_def effective_max_iter_def dotl_def)
  have st: "IsZero DBL_MIN (dotl (s_of ?A ?\<sigma>) (matvec ?A (s_of ?A ?\<sigma>)))"
    by (simp add: breakdown_run_start matvec_def dotl_def IsZero_DBL_MIN_0)
  have om: "omega_of DBL_MIN ?A ?\<sigma> = 0"
    by (simp add: omega_of_def breakdown_run_start matvec_def dotl_def IsZero_DBL_MIN_0)
  have it: "iteration ?B ?A ?\<sigma> = Inr (Break, updated ?B ?A ?\<sigma>)"
    by (simp add: iteration_eq om breakdown_run_start IsZero_DBL_MIN IsZero_DBL_MIN_0)
  have x: "mem (updated ?B ?A ?\<sigma>) V_x = [1, 0]"
    by (simp add: updated_def x_of_def om alpha_of_def breakdown_run_start start_fields axpyl_def
        matvec_def dotl_def)
  have r: "rTr (updated ?B ?A ?\<sigma>) = 1"
    by (simp add: updated_def r_of_def om alpha_of_def breakdown_run_start start_fields axpyl_def
        matvec_def dotl_def)
  have i: "its (updated ?B ?A ?\<sigma>) = 0"
    by (simp add: updated_def breakdown_run_start)
  from breakdown_breaks [OF v a h c it]
  have "solve ?B Solver_BICGSTAB ?A [1, 0] [0, 0]
      = Inr \<lparr>success = (rTr (updated ?B ?A ?\<sigma>) \<le> ?err), final = updated ?B ?A ?\<sigma>\<rparr>"
    by blast
  then have brk: "observe (solve ?B Solver_BICGSTAB ?A [1, 0] [0, 0]) = Inr (False, [1, 0], 0)"
    by (simp add: observe_def x r i Solver_BICGSTAB_def dotl_def)
  from brk st om it r show ?thesis
    by blast
qed

subsection \<open>C4: a near-zero \<open>(rT, Ad)\<close>\<close>

text \<open>
  Claim C4 as stated fails: with \<open>(rT, Ad)\<close> near zero in the first pass of the body, \<open>solve\<close>
  does not return false; the \<open>assert\<close> of line 147 fails and the call never returns.
\<close>

theorem near_zero_rTAd_counterexample:
  "IsZero DBL_MIN
     (dot V_rT V_Ad (mult [[0, 1], [- 1, 0]] V_d V_Ad
        (start (as_written False DBL_MIN) [[0, 1], [- 1, 0]] [1, 0] [0, 0])))
   \<and> solve (as_written False DBL_MIN) Solver_BICGSTAB [[0, 1], [- 1, 0]] [1, 0] [0, 0]
       = Inl Assertion_Failed"
proof -
  have "solve (as_written False DBL_MIN) Solver_BICGSTAB [[0, 1], [- 1, 0]] [1, 0] [0, 0]
      = Inl Assertion_Failed"
    by (simp add: run_simps)
  then show ?thesis
    by (simp add: rTAd_of_source skew_start IsZero_DBL_MIN_0)
qed

text \<open>
  Claim C4, amended. In every pass of the body in which \<open>(rT, Ad)\<close> is near zero, a build
  with assertions fails the \<open>assert\<close> of line 147: the body stops there and \<open>solve\<close> does not
  return (unlike the guards on \<open>\<omega>\<close> and \<open>rTh\<close>, which leave the loop by \<open>break\<close>). A build with
  \<open>NDEBUG\<close> has no guard at that point: line 148 divides \<open>rTh\<close> by \<open>rTAd\<close>, which is a
  division by zero when \<open>rTAd\<close> is exactly zero.
\<close>

theorem near_zero_rTAd_fails_assertion:
  assumes v: "length A = length b" "length A = length x" "0 < length A"
    and h: "loop_head (as_written nd t) A (m_epsilon S * m_epsilon S * dotl b b)
              (effective_max_iter S (of_nat (length A))) k (start (as_written nd t) A b x) = Some \<sigma>"
    and c: "m_epsilon S * m_epsilon S * dotl b b < rTr \<sigma>" "its \<sigma> < effective_max_iter S (of_nat (length A))"
    and z: "IsZero t (dot V_rT V_Ad (mult A V_d V_Ad \<sigma>))"
  shows "(\<not> nd \<longrightarrow> iteration (as_written nd t) A \<sigma> = Inl Assertion_Failed
                 \<and> solve (as_written nd t) S A b x = Inl Assertion_Failed)
    \<and> (nd \<longrightarrow>
          iteration (as_written nd t) A \<sigma> =
            (if dot V_rT V_Ad (mult A V_d V_Ad \<sigma>) = 0 then Inl Division_By_Zero
             else if IsZero t (omega_of t A \<sigma>) \<or> IsZero t (rTh \<sigma>)
               then Inr (Break, updated (as_written nd t) A \<sigma>)
             else Inr (Continue, redirected (as_written nd t) A \<sigma>))
          \<and> alpha_of A \<sigma> = rTh \<sigma> / dot V_rT V_Ad (mult A V_d V_Ad \<sigma>)
          \<and> solve (as_written nd t) S A b x =
              (if dot V_rT V_Ad (mult A V_d V_Ad \<sigma>) = 0 then Inl Division_By_Zero
               else run_loop (as_written nd t) A (m_epsilon S * m_epsilon S * dotl b b)
                      (effective_max_iter S (of_nat (length A))) \<sigma>))"
proof -
  let ?B = "as_written nd t"
  let ?err = "m_epsilon S * m_epsilon S * dotl b b"
  let ?mx = "effective_max_iter S (of_nat (length A))"
  have run: "solve ?B S A b x = run_loop ?B A ?err ?mx \<sigma>"
    if "ndebug ?B \<or> \<not> IsZero (tiny ?B) (dot V_rT V_rT (init ?B A (of_nat (length A)) (entry b x)))"
    using solve_from_head [OF v that h] .
  have first: "solve ?B S A b x = Inl Assertion_Failed"
    if "\<not> (ndebug ?B \<or> \<not> IsZero (tiny ?B) (dot V_rT V_rT (init ?B A (of_nat (length A)) (entry b x))))"
    using solve_first_assert [OF v, of ?B] that by blast
  have err: "run_loop ?B A ?err ?mx \<sigma> = Inl e" if "iteration ?B A \<sigma> = Inl e" for e
    using loop_error [OF c that] by (simp add: run_loop_def)
  show ?thesis
  proof (intro conjI impI)
    assume "\<not> nd"
    with z show a: "iteration ?B A \<sigma> = Inl Assertion_Failed"
      by (simp add: iteration_eq rTAd_of_source)
    from a run first err show "solve ?B S A b x = Inl Assertion_Failed"
      by metis
  next
    assume nd
    then show a: "iteration ?B A \<sigma> =
        (if dot V_rT V_Ad (mult A V_d V_Ad \<sigma>) = 0 then Inl Division_By_Zero
         else if IsZero t (omega_of t A \<sigma>) \<or> IsZero t (rTh \<sigma>) then Inr (Break, updated ?B A \<sigma>)
         else Inr (Continue, redirected ?B A \<sigma>))"
      by (simp add: iteration_eq rTAd_of_source)
    show "alpha_of A \<sigma> = rTh \<sigma> / dot V_rT V_Ad (mult A V_d V_Ad \<sigma>)"
      by (simp add: rTAd_of_source alpha_of_def)
    from \<open>nd\<close> have "solve ?B S A b x = run_loop ?B A ?err ?mx \<sigma>"
      by (intro run) simp
    with a err [of Division_By_Zero]
    show "solve ?B S A b x =
        (if dot V_rT V_Ad (mult A V_d V_Ad \<sigma>) = 0 then Inl Division_By_Zero
         else run_loop ?B A ?err ?mx \<sigma>)"
      by simp
  qed
qed

theorem near_zero_rTAd_fails_assertion_witness:
  "loop_head (as_written False DBL_MIN) [[0, 1], [- 1, 0]]
      (m_epsilon Solver_BICGSTAB * m_epsilon Solver_BICGSTAB * dotl [1, 0] [1, 0])
      (effective_max_iter Solver_BICGSTAB (of_nat (length [[0, 1], [- 1, 0 :: real]]))) 0
      (start (as_written False DBL_MIN) [[0, 1], [- 1, 0]] [1, 0] [0, 0])
     = Some (start (as_written False DBL_MIN) [[0, 1], [- 1, 0]] [1, 0] [0, 0])
   \<and> m_epsilon Solver_BICGSTAB * m_epsilon Solver_BICGSTAB * dotl [1, 0] [1, 0]
       < rTr (start (as_written False DBL_MIN) [[0, 1], [- 1, 0]] [1, 0] [0, 0])
   \<and> its (start (as_written False DBL_MIN) [[0, 1], [- 1, 0]] [1, 0] [0, 0])
       < effective_max_iter Solver_BICGSTAB (of_nat (length [[0, 1], [- 1, 0 :: real]]))
   \<and> IsZero DBL_MIN (dot V_rT V_Ad (mult [[0, 1], [- 1, 0]] V_d V_Ad
        (start (as_written False DBL_MIN) [[0, 1], [- 1, 0]] [1, 0] [0, 0])))
   \<and> solve (as_written False DBL_MIN) Solver_BICGSTAB [[0, 1], [- 1, 0]] [1, 0] [0, 0]
       = Inl Assertion_Failed
   \<and> solve (as_written True DBL_MIN) Solver_BICGSTAB [[0, 1], [- 1, 0]] [1, 0] [0, 0]
       = Inl Division_By_Zero"
proof -
  let ?A = "[[0, 1], [- 1, 0 :: real]]"
  let ?err = "m_epsilon Solver_BICGSTAB * m_epsilon Solver_BICGSTAB * dotl [1, 0] [1, 0]"
  let ?mx = "effective_max_iter Solver_BICGSTAB (of_nat (length ?A))"
  have v: "length ?A = length [1, 0 :: real]" "length ?A = length [0, 0 :: real]" "0 < length ?A"
    by simp_all
  have h: "loop_head (as_written nd DBL_MIN) ?A ?err ?mx 0 (start (as_written nd DBL_MIN) ?A [1, 0] [0, 0])
      = Some (start (as_written nd DBL_MIN) ?A [1, 0] [0, 0])" for nd
    by simp
  have c: "?err < rTr (start (as_written nd DBL_MIN) ?A [1, 0] [0, 0])"
    "its (start (as_written nd DBL_MIN) ?A [1, 0] [0, 0]) < ?mx" for nd
    by (simp_all add: start_fields Solver_BICGSTAB_def effective_max_iter_def dotl_def axpyl_def matvec_def)
  have z: "dot V_rT V_Ad (mult ?A V_d V_Ad (start (as_written nd DBL_MIN) ?A [1, 0] [0, 0])) = 0" for nd
    by (simp add: rTAd_of_source skew_start)
  have z': "IsZero DBL_MIN (dot V_rT V_Ad (mult ?A V_d V_Ad (start (as_written nd DBL_MIN) ?A [1, 0] [0, 0])))" for nd
    by (simp add: z IsZero_DBL_MIN_0)
  from near_zero_rTAd_fails_assertion [where nd = False and S = Solver_BICGSTAB, OF v h c z']
    near_zero_rTAd_fails_assertion [where nd = True and S = Solver_BICGSTAB, OF v h c z']
    h [of False] c [of False] z' [of False] z [of True]
  show ?thesis
    by simp
qed

subsection \<open>C5: input validation\<close>

text \<open>
  Claim C5. When \<open>A.dimension()\<close> differs from \<open>b.dimension()\<close> or from \<open>x.dimension()\<close>, or
  is not positive, \<open>solve\<close> returns false before any computation: the state it leaves is the
  state at entry, in which \<open>x\<close> is the vector passed in, no working vector exists, and the
  counters of vector constructions and of calls of \<open>mult\<close> are zero.
\<close>

theorem solve_rejects_bad_dimensions:
  assumes "length A \<noteq> length b \<or> length A \<noteq> length x \<or> length A \<le> 0"
  shows "solve B S A b x = Inr \<lparr>success = False, final = entry b x\<rparr>
    \<and> mem (entry b x) V_x = x
    \<and> (\<forall>v. v \<noteq> V_x \<and> v \<noteq> V_b \<longrightarrow> mem (entry b x) v = [])
    \<and> n_alloc (entry b x) = 0
    \<and> n_mult (entry b x) = 0"
  using assms by (auto simp: solve_def entry_def)

theorem solve_rejects_bad_dimensions_witness:
  "length [[1, 0, 0], [0, 1, 0], [0, 0, 1 :: real]] \<noteq> length [1, 2 :: real]
   \<and> solve (as_written False DBL_MIN) Solver_BICGSTAB [[1, 0, 0], [0, 1, 0], [0, 0, 1]] [1, 2] [0, 0, 0]
       = Inr \<lparr>success = False, final = entry [1, 2] [0, 0, 0]\<rparr>
   \<and> mem (entry [1, 2] [0, 0, 0]) V_x = [0, 0, 0]
   \<and> n_alloc (entry [1, 2] [0, 0, 0]) = 0 \<and> n_mult (entry [1, 2] [0, 0, 0]) = 0"
  using solve_rejects_bad_dimensions
    [of "[[1, 0, 0], [0, 1, 0], [0, 0, 1]]" "[1, 2]" "[0, 0, 0]" "as_written False DBL_MIN" Solver_BICGSTAB]
  by simp

subsection \<open>C6: the iteration cap\<close>




subsection \<open>C7: an initial residue that is exactly zero\<close>




subsection \<open>C8: \<open>s\<close> bound to the buffer of \<open>h\<close>\<close>

text \<open>
  Claim C8. The source's \<open>solve\<close>, in which \<open>s\<close> and \<open>h\<close> are one buffer (\<open>Vector& s = h\<close>), and
  the variant in which \<open>s\<close> is a vector of its own, running the same BLAS calls in the same
  order, are observationally equivalent on every input: same outcome (value returned, or
  the same abnormal end), same final \<open>x\<close>, same count \<open>its\<close>.
\<close>

theorem alias_s_h_equivalent:
  "observe (solve ((as_written nd t)\<lparr>s_ref := V_s\<rparr>) S A b x) = observe (solve (as_written nd t) S A b x)"
  by (rule solve_agree [where v = V_s]) (simp add: agree_except_def)

subsection \<open>C9: the accumulator \<open>u\<close>\<close>

text \<open>
  Claim C9. The vector \<open>u\<close> is written in every pass of the body (lines 153-154) and read by
  no other statement: the variant of \<open>solve\<close> without these two BLAS calls has, on every
  input, the same outcome (value returned, or the same abnormal end), the same final \<open>x\<close>
  and the same count \<open>its\<close>.
\<close>

theorem u_is_never_read:
  "observe (solve ((as_written nd t)\<lparr>u_calls := False\<rparr>) S A b x) = observe (solve (as_written nd t) S A b x)"
  by (rule solve_agree [where v = V_u]) (simp add: agree_except_def)

subsection \<open>C10: the residue invariant\<close>

text \<open>
  Claim C10. In exact arithmetic, at every test of the loop condition the vector \<open>r\<close> is
  \<open>A x - b\<close> for the current \<open>x\<close>: the initialisation establishes it, and every pass of the
  body that returns to the loop head (or leaves by \<open>break\<close>) preserves it, the updates of \<open>r\<close>
  and \<open>x\<close> being paired through \<open>Ad = A d\<close> and \<open>t = A s\<close>.
\<close>

theorem residue_is_A_x_minus_b:
  assumes v: "length A = length b" "length A = length x" "0 < length A"
    and h: "loop_head (as_written nd t) A (m_epsilon S * m_epsilon S * dotl b b)
              (effective_max_iter S (of_nat (length A))) k (start (as_written nd t) A b x) = Some \<sigma>"
  shows "mem (start (as_written nd t) A b x) V_r = residual A x b
    \<and> mem \<sigma> V_r = residual A (mem \<sigma> V_x) b
    \<and> (\<forall>fl \<tau>. iteration (as_written nd t) A \<sigma> = Inr (fl, \<tau>)
          \<longrightarrow> mem \<tau> V_r = residual A (mem \<tau> V_x) b)"
proof -
  let ?B = "as_written nd t"
  have sref: "s_ref ?B = V_h \<or> s_ref ?B = V_s" by simp
  have i0: "residual_inv A b (start ?B A b x)"
    by (rule residual_inv_start [OF sref v(1,2)])
  from h i0 have i: "residual_inv A b \<sigma>"
    by (rule loop_head_inv) (rule residual_inv_step [OF sref])
  from i0 have "mem (start ?B A b x) V_r = residual A x b"
    by (simp add: residual_inv_def start_fields [OF sref])
  moreover from i have "mem \<sigma> V_r = residual A (mem \<sigma> V_x) b"
    by (simp add: residual_inv_def)
  moreover have "mem \<tau> V_r = residual A (mem \<tau> V_x) b"
    if "iteration ?B A \<sigma> = Inr (fl, \<tau>)" for fl \<tau>
    using residual_inv_step [OF sref i that] by (simp add: residual_inv_def)
  ultimately show ?thesis by blast
qed

theorem residue_is_A_x_minus_b_witness:
  "loop_head (as_written False DBL_MIN) [[4, 1], [1, 3]]
      (m_epsilon (set_epsilon (1 / 10 ^ 8) Solver_BICGSTAB) * m_epsilon (set_epsilon (1 / 10 ^ 8) Solver_BICGSTAB)
         * dotl [1, 2] [1, 2])
      (effective_max_iter (set_epsilon (1 / 10 ^ 8) Solver_BICGSTAB) (of_nat (length [[4, 1], [1, 3 :: real]])))
      (Suc 0) (start (as_written False DBL_MIN) [[4, 1], [1, 3]] [1, 2] [0, 0])
     = Some (redirected (as_written False DBL_MIN) [[4, 1], [1, 3]]
         (start (as_written False DBL_MIN) [[4, 1], [1, 3]] [1, 2] [0, 0]))
   \<and> mem (redirected (as_written False DBL_MIN) [[4, 1], [1, 3]]
         (start (as_written False DBL_MIN) [[4, 1], [1, 3]] [1, 2] [0, 0])) V_r
       = residual [[4, 1], [1, 3]] [1 / 10, 23 / 40] [1, 2]
   \<and> residual [[4, 1], [1, 3]] [1 / 10, 23 / 40] [1, 2] = [- 1 / 40, - 7 / 40]"
proof -
  let ?A = "[[4, 1], [1, 3 :: real]]"
  let ?B = "as_written False DBL_MIN"
  let ?S = "set_epsilon (1 / 10 ^ 8) Solver_BICGSTAB"
  let ?\<sigma> = "start ?B ?A [1, 2] [0, 0]"
  have v: "length ?A = length [1, 2 :: real]" "length ?A = length [0, 0 :: real]" "0 < length ?A"
    by simp_all
  have h: "loop_head ?B ?A (m_epsilon ?S * m_epsilon ?S * dotl [1, 2] [1, 2])
      (effective_max_iter ?S (of_nat (length ?A))) (Suc 0) ?\<sigma> = Some (redirected ?B ?A ?\<sigma>)"
    by (simp add: scenario_2_first_pass scenario_2_start set_epsilon_def Solver_BICGSTAB_def
        effective_max_iter_def dotl_def)
  have "residual ?A [1 / 10, 23 / 40] [1, 2] = [- 1 / 40, - 7 / 40]"
    by (simp add: residual_def matvec_def dotl_def)
  with residue_is_A_x_minus_b [OF v h] h show ?thesis
    by (simp add: scenario_2_x1)
qed

end
